theory Spec2Isabelle
  imports Main
begin

section \<open>JavaScript values\<close>

text \<open>
  The routes read their input with \<^verbatim>\<open>request.json()\<close> and keep whatever they find, so the
  model carries JavaScript values. \<open>JUndefined\<close> is never in a parsed body; it is what
  reading a missing property gives.

  A number is a double. \<open>JNum n\<close> is the double whose value is the integer \<open>n\<close>, \<open>JNaN\<close> is
  \<^verbatim>\<open>NaN\<close>, and \<open>JInfinity True\<close> and \<open>JInfinity False\<close> are \<^verbatim>\<open>Infinity\<close> and \<^verbatim>\<open>-Infinity\<close>.
  The doubles with a fractional part are outside the model, and \<^verbatim>\<open>-0\<close> is not told from
  \<^verbatim>\<open>0\<close>, which nothing in the routes can tell apart. \<^verbatim>\<open>JSON.parse\<close> rounds a literal to a
  double before a route sees it, so the \<open>n\<close> of a \<open>JNum n\<close> in a body is an integer that a
  double holds exactly (\<open>to_double n = JNum n\<close> below).
\<close>

datatype jsval =
    JUndefined
  | JNull
  | JBool bool
  | JNum int
  | JNaN
  | JInfinity bool
  | JStr string
  | JArr "jsval list"
  | JObj "(string \<times> jsval) list"

text \<open>
  An object is the list of its own properties; the first binding of a key is the value of
  the property, so that a spread \<^verbatim>\<open>{ ...a, ...b }\<close> is the properties of \<open>b\<close> put in front
  of those of \<open>a\<close>.
\<close>

type_synonym jsobj = "(string \<times> jsval) list"

datatype js_error = TypeError | SyntaxError | IOError

definition property :: "jsobj \<Rightarrow> string \<Rightarrow> jsval" where
  "property obj k = (case map_of obj k of None \<Rightarrow> JUndefined | Some v \<Rightarrow> v)"

text \<open>
  \<^verbatim>\<open>v.k\<close> for the keys the routes read (none of them is a property of a string, an array, a
  number or a boolean): reading from \<^verbatim>\<open>null\<close> or \<^verbatim>\<open>undefined\<close> throws.
\<close>

fun member :: "jsval \<Rightarrow> string \<Rightarrow> js_error + jsval" where
  "member JUndefined k = Inl TypeError"
| "member JNull k = Inl TypeError"
| "member (JObj obj) k = Inr (property obj k)"
| "member v k = Inr JUndefined"

fun truthy :: "jsval \<Rightarrow> bool" where
  "truthy JUndefined = False"
| "truthy JNull = False"
| "truthy (JBool b) = b"
| "truthy (JNum n) = (n \<noteq> 0)"
| "truthy JNaN = False"
| "truthy (JInfinity positive) = True"
| "truthy (JStr s) = (s \<noteq> [])"
| "truthy (JArr xs) = True"
| "truthy (JObj obj) = True"

fun isArray :: "jsval \<Rightarrow> bool" where
  "isArray (JArr xs) = True"
| "isArray v = False"

fun is_reference :: "jsval \<Rightarrow> bool" where
  "is_reference (JArr xs) = True"
| "is_reference (JObj obj) = True"
| "is_reference v = False"

text \<open>
  \<^verbatim>\<open>a === b\<close>. An array or an object is equal only to itself, and wherever the routes
  compare, one side is a value of the request just parsed (or a literal) and the other a
  value of the store: two arrays or two objects are then never the same one. \<^verbatim>\<open>NaN\<close> is
  equal to nothing.
\<close>

definition strict_eq :: "jsval \<Rightarrow> jsval \<Rightarrow> bool" where
  "strict_eq a b = (\<not> is_reference a \<and> \<not> is_reference b \<and> a \<noteq> JNaN \<and> a = b)"

text \<open>\<^verbatim>\<open>xs.includes(v)\<close> on an array of string literals.\<close>

definition js_includes :: "string list \<Rightarrow> jsval \<Rightarrow> bool" where
  "js_includes xs v = list_ex (\<lambda>x. strict_eq (JStr x) v) xs"

text \<open>\<^verbatim>\<open>xs.findIndex(p)\<close>, with \<open>None\<close> for \<^verbatim>\<open>-1\<close>.\<close>

fun findIndex :: "('a \<Rightarrow> bool) \<Rightarrow> 'a list \<Rightarrow> nat option" where
  "findIndex p [] = None"
| "findIndex p (x # xs) =
     (if p x then Some 0 else map_option Suc (findIndex p xs))"

fun digit :: "nat \<Rightarrow> char" where
  "digit n = char_of (48 + n)"

fun decimal :: "nat \<Rightarrow> string" where
  "decimal n = (if n < 10 then [digit n] else decimal (n div 10) @ [digit (n mod 10)])"

declare decimal.simps [simp del]

text \<open>
  The own enumerable properties that a spread \<^verbatim>\<open>...v\<close> copies: those of an object, the
  indexed elements of an array, the indexed characters of a string, and nothing for the
  other values.
\<close>

fun own_props :: "jsval \<Rightarrow> jsobj" where
  "own_props (JObj obj) = obj"
| "own_props (JArr xs) = zip (map decimal [0..<length xs]) xs"
| "own_props (JStr s) = zip (map decimal [0..<length s]) (map (\<lambda>c. JStr [c]) s)"
| "own_props v = []"

subsection \<open>Numbers\<close>

text \<open>
  The double nearest to an integer, ties to the even significand. \<open>bitlen a\<close> is the number
  of binary digits of \<open>a\<close>. An integer of at most 53 binary digits is a double. A longer one
  is rounded at its 53rd digit, \<open>ulp\<close> being the weight of that digit; what rounds to
  \<open>2 ^ 1024\<close> or beyond is infinite.
\<close>

function bitlen :: "int \<Rightarrow> nat" where
  "bitlen a = (if a \<le> 0 then 0 else Suc (bitlen (a div 2)))"
  by auto

termination bitlen
  by (relation "measure nat") auto

declare bitlen.simps [simp del]

definition round_half_even :: "int \<Rightarrow> int \<Rightarrow> int" where
  "round_half_even a ulp =
     (let q = a div ulp; r = a mod ulp
      in if 2 * r < ulp then q
         else if ulp < 2 * r then q + 1
         else if q mod 2 = 0 then q else q + 1)"

definition to_double :: "int \<Rightarrow> jsval" where
  "to_double x =
     (let a = \<bar>x\<bar>; b = bitlen a
      in if b \<le> 53 then JNum x
         else (let ulp = 2 ^ (b - 53); v = round_half_even a ulp * ulp
               in if 2 ^ 1024 \<le> v then JInfinity (0 < x)
                  else JNum (if 0 < x then v else - v)))"

text \<open>
  \<^verbatim>\<open>a + b\<close> on two numbers: the exact sum, rounded. \<^verbatim>\<open>NaN\<close> absorbs, and so does an infinity
  unless it meets the opposite one.
\<close>

fun add_numbers :: "jsval \<Rightarrow> jsval \<Rightarrow> jsval" where
  "add_numbers (JNum a) (JNum b) = to_double (a + b)"
| "add_numbers (JInfinity s) (JInfinity t) = (if s = t then JInfinity s else JNaN)"
| "add_numbers (JInfinity s) (JNum b) = JInfinity s"
| "add_numbers (JNum a) (JInfinity t) = JInfinity t"
| "add_numbers a b = JNaN"

text \<open>The decimal digits of an integer that is not negative.\<close>

function digits :: "int \<Rightarrow> string" where
  "digits x = (if x < 10 then [digit (nat x)] else digits (x div 10) @ [digit (nat (x mod 10))])"
  by auto

termination digits
  by (relation "measure nat") auto

declare digits.simps [simp del]

text \<open>
  \<^verbatim>\<open>Number::toString\<close> for a positive integer \<open>x\<close>: with \<open>k\<close> as small as possible, the digits
  \<open>s\<close> (\<open>k\<close> of them) and the exponent \<open>n\<close> such that \<open>s * 10 ^ (n - k)\<close> rounds to \<open>x\<close>,
  and among these the \<open>s * 10 ^ (n - k)\<close> nearest to \<open>x\<close>, the even \<open>s\<close> on a tie. The two
  multiples of \<open>10 ^ (n - k)\<close> around \<open>x\<close> are the only ones to try, and \<open>n\<close> is the number of
  digits of \<open>x\<close> or one more. Up to 21 digits are written out, more take the exponent form.
  A double always has such digits with \<open>k\<close> at most 17.
\<close>

definition candidates :: "int \<Rightarrow> nat \<Rightarrow> (int \<times> nat) list" where
  "candidates x k =
     [(s, n). n \<leftarrow> [length (digits x), Suc (length (digits x))],
              s \<leftarrow> [x div 10 ^ (n - k), x div 10 ^ (n - k) + 1],
              10 ^ (k - 1) \<le> s \<and> s < 10 ^ k \<and> to_double (s * 10 ^ (n - k)) = JNum x]"

definition distance :: "int \<Rightarrow> nat \<Rightarrow> int \<times> nat \<Rightarrow> int" where
  "distance x k c = (case c of (s, n) \<Rightarrow> \<bar>s * 10 ^ (n - k) - x\<bar>)"

fun closest :: "int \<Rightarrow> nat \<Rightarrow> (int \<times> nat) list \<Rightarrow> int \<times> nat" where
  "closest x k [] = (x, length (digits x))"
| "closest x k [c] = c"
| "closest x k (c # c' # cs) =
     (let b = closest x k (c' # cs)
      in if distance x k c < distance x k b
            \<or> (distance x k c = distance x k b \<and> fst c mod 2 = 0)
         then c else b)"

definition positive_to_string :: "int \<Rightarrow> string" where
  "positive_to_string x =
     (case find (\<lambda>k. candidates x k \<noteq> []) [1..<Suc (min 17 (length (digits x)))] of
        None \<Rightarrow> digits x
      | Some k \<Rightarrow>
          (case closest x k (candidates x k) of (s, n) \<Rightarrow>
             if n \<le> 21 then digits (s * 10 ^ (n - k))
             else (if k = 1 then digits s
                   else hd (digits s) # CHR ''.'' # tl (digits s))
                  @ ''e+'' @ decimal (n - 1)))"

definition number_to_string :: "int \<Rightarrow> string" where
  "number_to_string x =
     (if x = 0 then ''0''
      else if x < 0 then CHR ''-'' # positive_to_string (- x)
      else positive_to_string x)"

subsection \<open>Conversion to text and \<^verbatim>\<open>+\<close>\<close>

text \<open>
  \<^verbatim>\<open>ToString\<close>, which a template literal applies to what it interpolates. An array is the
  texts of its elements joined by commas, \<^verbatim>\<open>null\<close> and \<^verbatim>\<open>undefined\<close> elements being
  empty. A parsed object has no function among its properties: with an own \<^verbatim>\<open>toString\<close>
  property, which hides \<^verbatim>\<open>Object.prototype.toString\<close>, neither that property nor
  \<^verbatim>\<open>valueOf\<close> gives a primitive and the conversion throws a \<^verbatim>\<open>TypeError\<close>; without one it
  is \<^verbatim>\<open>[object Object]\<close>.
\<close>

fun to_text :: "jsval \<Rightarrow> js_error + string"
  and join_texts :: "jsval list \<Rightarrow> js_error + string" where
  "to_text JUndefined = Inr ''undefined''"
| "to_text JNull = Inr ''null''"
| "to_text (JBool b) = Inr (if b then ''true'' else ''false'')"
| "to_text (JNum n) = Inr (number_to_string n)"
| "to_text JNaN = Inr ''NaN''"
| "to_text (JInfinity positive) = Inr (if positive then ''Infinity'' else ''-Infinity'')"
| "to_text (JStr s) = Inr s"
| "to_text (JArr xs) = join_texts xs"
| "to_text (JObj obj) =
     (if map_of obj ''toString'' = None then Inr ''[object Object]'' else Inl TypeError)"
| "join_texts [] = Inr []"
| "join_texts (x # xs) =
     (case (if x = JNull \<or> x = JUndefined then Inr [] else to_text x) of
        Inl e \<Rightarrow> Inl e
      | Inr s \<Rightarrow>
          (case join_texts xs of
             Inl e \<Rightarrow> Inl e
           | Inr rest \<Rightarrow> Inr (if xs = [] then s else s @ '','' @ rest)))"

text \<open>
  \<^verbatim>\<open>ToPrimitive\<close>: an array or an object becomes its text (or throws as above: for a
  parsed value the order in which \<^verbatim>\<open>valueOf\<close> and \<^verbatim>\<open>toString\<close> are tried makes no
  difference). \<^verbatim>\<open>ToNumber\<close> is applied to primitives that are not strings only.
\<close>

definition to_primitive :: "jsval \<Rightarrow> js_error + jsval" where
  "to_primitive v =
     (if is_reference v
      then (case to_text v of Inl e \<Rightarrow> Inl e | Inr s \<Rightarrow> Inr (JStr s))
      else Inr v)"

fun to_number :: "jsval \<Rightarrow> jsval" where
  "to_number JUndefined = JNaN"
| "to_number JNull = JNum 0"
| "to_number (JBool b) = JNum (if b then 1 else 0)"
| "to_number v = v"

fun is_string :: "jsval \<Rightarrow> bool" where
  "is_string (JStr s) = True"
| "is_string v = False"

text \<open>
  \<^verbatim>\<open>a + b\<close>: both operands are made primitive; when one of them is a string the result is
  the two texts one after the other, otherwise it is the sum of the two numbers.
\<close>

definition js_plus :: "jsval \<Rightarrow> jsval \<Rightarrow> js_error + jsval" where
  "js_plus a b =
     (case to_primitive a of
        Inl e \<Rightarrow> Inl e
      | Inr lprim \<Rightarrow>
          (case to_primitive b of
             Inl e \<Rightarrow> Inl e
           | Inr rprim \<Rightarrow>
               if is_string lprim \<or> is_string rprim
               then (case (to_text lprim, to_text rprim) of
                       (Inr lstr, Inr rstr) \<Rightarrow> Inr (JStr (lstr @ rstr))
                     | _ \<Rightarrow> Inl TypeError)
               else Inr (add_numbers (to_number lprim) (to_number rprim))))"

section \<open>The store (\<^verbatim>\<open>src/services/mockDb.ts\<close>)\<close>

record user =
  u_id :: string
  username :: string
  role :: string
  fullName :: string

record exhibition =
  ex_id :: string
  ex_exhibitionId :: string
  ex_name :: jsval
  ex_description :: jsval
  ex_startDate :: jsval
  ex_endDate :: jsval
  ex_status :: string

record exhibitionProduct =
  ep_id :: string
  ep_exhibitionId :: string
  ep_productId :: jsval
  ep_quantity :: jsval
  ep_price :: jsval
  ep_status :: jsval
  ep_supplierId :: string

record productList =
  pl_id :: string
  pl_exhibitionId :: jsval
  pl_supplierId :: jsval
  pl_status :: jsval
  pl_createdAt :: string
  pl_totalQuantity :: jsval

record productListItem =
  pli_id :: string
  pli_productListId :: string
  pli_productId :: jsval
  pli_quantity :: jsval
  pli_price :: jsval

text \<open>
  A product and an order are kept as objects: the routes spread a whole request body into
  them. The ingredient and packaging tables, which no route touches, are left out.
\<close>

record db =
  users :: "user list"
  products :: "jsobj list"
  exhibitions :: "exhibition list"
  exhibitionProducts :: "exhibitionProduct list"
  orders :: "jsobj list"
  productLists :: "productList list"
  productListItems :: "productListItem list"

text \<open>
  \<^verbatim>\<open>INITIAL_DATA\<close>, table by table. A seeded row that has no \<^verbatim>\<open>price\<close> reads \<^verbatim>\<open>undefined\<close> there.
\<close>

definition INITIAL_users :: "user list" where
  "INITIAL_users =
     [\<lparr>u_id = ''u1'', username = ''admin'', role = ''ADMIN'', fullName = ''Super Admin''\<rparr>,
      \<lparr>u_id = ''u2'', username = ''manager'', role = ''MANAGER'', fullName = ''Project Manager''\<rparr>,
      \<lparr>u_id = ''u3'', username = ''staff'', role = ''USER'', fullName = ''Operational Staff''\<rparr>,
      \<lparr>u_id = ''u4'', username = ''viewer'', role = ''VIEWER'', fullName = ''Read Only Viewer''\<rparr>]"

definition INITIAL_products :: "jsobj list" where
  "INITIAL_products =
     [[(''id'', JStr ''456567''), (''name'', JStr ''Maggi''), (''category'', JStr ''Instant food''),
       (''buyingPrice'', JNum 430), (''quantity'', JNum 43), (''unit'', JStr ''Packets''),
       (''thresholdValue'', JNum 12), (''expiryDate'', JStr ''2022-12-11''), (''availability'', JStr ''In-stock''),
       (''image'', JStr ''/placeholder.png''), (''sku'', JStr ''SKU-456567''), (''isApproved'', JBool True)],
      [(''id'', JStr ''456568''), (''name'', JStr ''Bru''), (''category'', JStr ''Instant food''),
       (''buyingPrice'', JNum 257), (''quantity'', JNum 22), (''unit'', JStr ''Packets''),
       (''thresholdValue'', JNum 12), (''expiryDate'', JStr ''2022-12-21''), (''availability'', JStr ''Out of stock''),
       (''image'', JStr ''/placeholder.png''), (''sku'', JStr ''SKU-456568''), (''isApproved'', JBool False)],
      [(''id'', JStr ''456569''), (''name'', JStr ''Red Bull''), (''category'', JStr ''Energy Drink''),
       (''buyingPrice'', JNum 405), (''quantity'', JNum 36), (''unit'', JStr ''Packets''),
       (''thresholdValue'', JNum 9), (''expiryDate'', JStr ''2022-12-05''), (''availability'', JStr ''In-stock''),
       (''image'', JStr ''/placeholder.png''), (''sku'', JStr ''SKU-456569''), (''isApproved'', JBool True)],
      [(''id'', JStr ''456570''), (''name'', JStr ''Bourn Vita''), (''category'', JStr ''Health Drink''),
       (''buyingPrice'', JNum 502), (''quantity'', JNum 14), (''unit'', JStr ''Packets''),
       (''thresholdValue'', JNum 6), (''expiryDate'', JStr ''2022-12-08''), (''availability'', JStr ''Out of stock''),
       (''image'', JStr ''/placeholder.png''), (''sku'', JStr ''SKU-456570''), (''isApproved'', JBool False)],
      [(''id'', JStr ''456571''), (''name'', JStr ''Horlicks''), (''category'', JStr ''Health Drink''),
       (''buyingPrice'', JNum 530), (''quantity'', JNum 5), (''unit'', JStr ''Packets''),
       (''thresholdValue'', JNum 5), (''expiryDate'', JStr ''2023-01-09''), (''availability'', JStr ''In-stock''),
       (''image'', JStr ''/placeholder.png''), (''sku'', JStr ''SKU-456571''), (''isApproved'', JBool True)]]"

definition INITIAL_exhibitions :: "exhibition list" where
  "INITIAL_exhibitions =
     [\<lparr>ex_id = ''oxurt5ywn'', ex_exhibitionId = ''EX-2941'', ex_name = JStr ''test exibition'',
       ex_description = JStr ''testtesttest'', ex_startDate = JStr ''2025-12-02'', ex_endDate = JStr ''2025-12-17'',
       ex_status = ''PLANNING''\<rparr>,
      \<lparr>ex_id = ''ui61d3cma'', ex_exhibitionId = ''EX-7516'', ex_name = JStr ''test2'',
       ex_description = JStr '''', ex_startDate = JStr ''2025-12-17'', ex_endDate = JStr ''2025-12-17'',
       ex_status = ''PLANNING''\<rparr>,
      \<lparr>ex_id = ''fs13x086f'', ex_exhibitionId = ''EX-7460'', ex_name = JStr ''AAAA'',
       ex_description = JStr '''', ex_startDate = JStr ''2025-12-03'', ex_endDate = JStr ''2025-12-06'',
       ex_status = ''ACTIVE''\<rparr>]"

definition INITIAL_exhibitionProducts :: "exhibitionProduct list" where
  "INITIAL_exhibitionProducts =
     [\<lparr>ep_id = ''d7gyiq52d'', ep_exhibitionId = ''EX-2941'', ep_productId = JStr ''456567'', ep_quantity = JNum 1,
       ep_price = JUndefined, ep_status = JStr ''approved'', ep_supplierId = ''current-user''\<rparr>,
      \<lparr>ep_id = ''cszttszpu'', ep_exhibitionId = ''EX-2941'', ep_productId = JStr ''456568'', ep_quantity = JNum 1,
       ep_price = JUndefined, ep_status = JStr ''pending'', ep_supplierId = ''current-user''\<rparr>,
      \<lparr>ep_id = ''is0w5qty1'', ep_exhibitionId = ''EX-2941'', ep_productId = JStr ''456570'', ep_quantity = JNum 1,
       ep_price = JUndefined, ep_status = JStr ''pending'', ep_supplierId = ''current-user''\<rparr>,
      \<lparr>ep_id = ''7cajr3r7o'', ep_exhibitionId = ''EX-2941'', ep_productId = JStr ''456571'', ep_quantity = JNum 1,
       ep_price = JUndefined, ep_status = JStr ''pending'', ep_supplierId = ''current-user''\<rparr>]"

definition INITIAL_orders :: "jsobj list" where
  "INITIAL_orders =
     [[(''id'', JStr ''7535''), (''exhibition'', JStr ''Taste & Treat Festival''), (''orderValue'', JNum 4306000),
       (''quantity'', JNum 43), (''unit'', JStr ''Packets''), (''expectedDelivery'', JStr ''2022-12-11''),
       (''status'', JStr ''Delayed'')],
      [(''id'', JStr ''5724''), (''exhibition'', JStr ''Flavors of the City''), (''orderValue'', JNum 2557000),
       (''quantity'', JNum 22), (''unit'', JStr ''Packets''), (''expectedDelivery'', JStr ''2022-12-21''),
       (''status'', JStr ''Received'')],
      [(''id'', JStr ''2775''), (''exhibition'', JStr ''Street Bite Market''), (''orderValue'', JNum 4075000),
       (''quantity'', JNum 36), (''unit'', JStr ''Packets''), (''expectedDelivery'', JStr ''2022-12-05''),
       (''status'', JStr ''Returned'')]]"

definition INITIAL_productLists :: "productList list" where
  "INITIAL_productLists =
     [\<lparr>pl_id = ''a1e8x088e'', pl_exhibitionId = JStr ''EX-2941'', pl_supplierId = JStr ''current-user'',
       pl_status = JStr ''pending'', pl_createdAt = ''2025-12-03T03:05:05.799Z'', pl_totalQuantity = JNum 12\<rparr>,
      \<lparr>pl_id = ''r2is3icfx'', pl_exhibitionId = JStr ''EX-7460'', pl_supplierId = JStr ''current-user'',
       pl_status = JStr ''pending'', pl_createdAt = ''2025-12-03T03:06:14.423Z'', pl_totalQuantity = JNum 3\<rparr>]"

definition INITIAL_productListItems :: "productListItem list" where
  "INITIAL_productListItems =
     [\<lparr>pli_id = ''15ukio6ll'', pli_productListId = ''a1e8x088e'', pli_productId = JStr ''456567'',
       pli_quantity = JNum 11, pli_price = JNum 430\<rparr>,
      \<lparr>pli_id = ''y9leq73fw'', pli_productListId = ''a1e8x088e'', pli_productId = JStr ''456568'',
       pli_quantity = JNum 1, pli_price = JNum 257\<rparr>,
      \<lparr>pli_id = ''j2n0iuw1l'', pli_productListId = ''r2is3icfx'', pli_productId = JStr ''456567'',
       pli_quantity = JNum 1, pli_price = JNum 430\<rparr>,
      \<lparr>pli_id = ''r4zoefv9a'', pli_productListId = ''r2is3icfx'', pli_productId = JStr ''456568'',
       pli_quantity = JNum 1, pli_price = JNum 257\<rparr>,
      \<lparr>pli_id = ''i66klbiam'', pli_productListId = ''r2is3icfx'', pli_productId = JStr ''456569'',
       pli_quantity = JNum 1, pli_price = JNum 405\<rparr>]"

definition INITIAL_DATA :: db where
  "INITIAL_DATA =
     \<lparr>users = INITIAL_users,
      products = INITIAL_products,
      exhibitions = INITIAL_exhibitions,
      exhibitionProducts = INITIAL_exhibitionProducts,
      orders = INITIAL_orders,
      productLists = INITIAL_productLists,
      productListItems = INITIAL_productListItems\<rparr>"

definition getUserById :: "db \<Rightarrow> string \<Rightarrow> user option" where
  "getUserById d i = find (\<lambda>u. u_id u = i) (users d)"

section \<open>Responses\<close>

text \<open>
  \<^verbatim>\<open>NextResponse.json(payload, { status })\<close>. An error payload is its \<^verbatim>\<open>error\<close> string;
  the one error that has \<^verbatim>\<open>details\<close> carries the two values its text interpolates,
  \<^verbatim>\<open>product?.name\<close> and \<^verbatim>\<open>item.productId\<close>, not the text itself (the route that makes it
  says when making the text throws).
\<close>

datatype 'a payload =
    Error string
  | Error_details string jsval jsval
  | Success
  | Message string
  | Payload 'a

datatype 'a response = Response (status_code: nat) (payload: "'a payload")

section \<open>Role-based access control (\<^verbatim>\<open>src/middleware/rbac.ts\<close>)\<close>

text \<open>
  A request is seen through \<^verbatim>\<open>request.headers.get('x-user-id')\<close>, which is \<open>None\<close> when
  the header is absent. An \<^verbatim>\<open>AuthContext\<close> holds the user only, so it is the user.
\<close>

definition authenticateUser :: "db \<Rightarrow> string option \<Rightarrow> user option" where
  "authenticateUser d header =
     (let userId = (case header of None \<Rightarrow> ''u3'' | Some h \<Rightarrow> if h \<noteq> [] then h else ''u3'')
      in getUserById d userId)"

definition hasRole :: "user option \<Rightarrow> string list \<Rightarrow> bool" where
  "hasRole context allowedRoles =
     (case context of None \<Rightarrow> False | Some u \<Rightarrow> role u \<in> set allowedRoles)"

definition requireAuth :: "db \<Rightarrow> string option \<Rightarrow> 'a response + user" where
  "requireAuth d header =
     (case authenticateUser d header of
        None \<Rightarrow> Inl (Response 401 (Error ''Unauthorized''))
      | Some context \<Rightarrow> Inr context)"

definition requireRoles :: "db \<Rightarrow> string option \<Rightarrow> string list \<Rightarrow> 'a response + user" where
  "requireRoles d header allowedRoles =
     (case requireAuth d header of
        Inl response \<Rightarrow> Inl response
      | Inr context \<Rightarrow>
          if \<not> hasRole (Some context) allowedRoles
          then Inl (Response 403 (Error ''Forbidden - Insufficient permissions''))
          else Inr context)"

datatype permission =
    PRODUCT_CREATE | PRODUCT_READ | PRODUCT_UPDATE | PRODUCT_DELETE
  | EXHIBITION_CREATE | EXHIBITION_READ | EXHIBITION_UPDATE
  | APPROVAL_APPROVE | APPROVAL_READ
  | ORDER_CREATE | ORDER_READ | ORDER_UPDATE

fun PERMISSIONS :: "permission \<Rightarrow> string list" where
  "PERMISSIONS PRODUCT_CREATE = [''ADMIN'', ''MANAGER'', ''USER'']"
| "PERMISSIONS PRODUCT_READ = [''ADMIN'', ''MANAGER'', ''USER'', ''VIEWER'']"
| "PERMISSIONS PRODUCT_UPDATE = [''ADMIN'', ''MANAGER'']"
| "PERMISSIONS PRODUCT_DELETE = [''ADMIN'']"
| "PERMISSIONS EXHIBITION_CREATE = [''ADMIN'', ''MANAGER'']"
| "PERMISSIONS EXHIBITION_READ = [''ADMIN'', ''MANAGER'', ''USER'', ''VIEWER'']"
| "PERMISSIONS EXHIBITION_UPDATE = [''ADMIN'', ''MANAGER'']"
| "PERMISSIONS APPROVAL_APPROVE = [''ADMIN'', ''MANAGER'']"
| "PERMISSIONS APPROVAL_READ = [''ADMIN'', ''MANAGER'', ''USER'', ''VIEWER'']"
| "PERMISSIONS ORDER_CREATE = [''ADMIN'', ''MANAGER'', ''USER'']"
| "PERMISSIONS ORDER_READ = [''ADMIN'', ''MANAGER'', ''USER'', ''VIEWER'']"
| "PERMISSIONS ORDER_UPDATE = [''ADMIN'', ''MANAGER'']"

definition checkPermission :: "user option \<Rightarrow> string list \<Rightarrow> bool" where
  "checkPermission context permission = hasRole context permission"

subsection \<open>The permission table as the specification prints it\<close>

text \<open>
  The table of the specification, row by row. The specification has its own names: its
  capability \<open>ProductCreate\<close> is the key \<open>PRODUCT_CREATE\<close> of the code, and so on for the
  twelve; its roles are those of \<^verbatim>\<open>UserRole\<close>, \<^verbatim>\<open>'ADMIN' | 'MANAGER' | 'USER' | 'VIEWER'\<close>, the
  third under the name \<open>OPERATOR\<close> (the role matrix of \<^verbatim>\<open>DEMO_MODE_GUIDE.md\<close> has the same
  four columns, with \<open>USER\<close> for it). \<open>code_role_name\<close> gives the role of the code for a
  column of the table.
\<close>

datatype spec_role = ADMIN | MANAGER | OPERATOR | VIEWER

fun spec_table :: "spec_role \<Rightarrow> permission \<Rightarrow> bool" where
  "spec_table r PRODUCT_CREATE = (r \<in> {ADMIN, MANAGER, OPERATOR})"
| "spec_table r PRODUCT_READ = (r \<in> {ADMIN, MANAGER, OPERATOR, VIEWER})"
| "spec_table r PRODUCT_UPDATE = (r \<in> {ADMIN, MANAGER})"
| "spec_table r PRODUCT_DELETE = (r \<in> {ADMIN})"
| "spec_table r EXHIBITION_CREATE = (r \<in> {ADMIN, MANAGER})"
| "spec_table r EXHIBITION_READ = (r \<in> {ADMIN, MANAGER, OPERATOR, VIEWER})"
| "spec_table r EXHIBITION_UPDATE = (r \<in> {ADMIN, MANAGER})"
| "spec_table r APPROVAL_APPROVE = (r \<in> {ADMIN, MANAGER})"
| "spec_table r APPROVAL_READ = (r \<in> {ADMIN, MANAGER, OPERATOR, VIEWER})"
| "spec_table r ORDER_CREATE = (r \<in> {ADMIN, MANAGER, OPERATOR})"
| "spec_table r ORDER_READ = (r \<in> {ADMIN, MANAGER, OPERATOR, VIEWER})"
| "spec_table r ORDER_UPDATE = (r \<in> {ADMIN, MANAGER})"

fun code_role_name :: "spec_role \<Rightarrow> string" where
  "code_role_name ADMIN = ''ADMIN''"
| "code_role_name MANAGER = ''MANAGER''"
| "code_role_name OPERATOR = ''USER''"
| "code_role_name VIEWER = ''VIEWER''"

definition all_roles :: "spec_role list" where
  "all_roles = [ADMIN, MANAGER, OPERATOR, VIEWER]"

definition all_permissions :: "permission list" where
  "all_permissions =
     [PRODUCT_CREATE, PRODUCT_READ, PRODUCT_UPDATE, PRODUCT_DELETE,
      EXHIBITION_CREATE, EXHIBITION_READ, EXHIBITION_UPDATE,
      APPROVAL_APPROVE, APPROVAL_READ,
      ORDER_CREATE, ORDER_READ, ORDER_UPDATE]"

section \<open>Operations of the store (\<^verbatim>\<open>class MockDB\<close>)\<close>

definition getProductById :: "db \<Rightarrow> jsval \<Rightarrow> jsobj option" where
  "getProductById d i = find (\<lambda>p. strict_eq (property p ''id'') i) (products d)"

definition addProduct :: "jsobj \<Rightarrow> db \<Rightarrow> db" where
  "addProduct product d = d\<lparr>products := products d @ [product]\<rparr>"

text \<open>\<^verbatim>\<open>{ ...this.data.products[index], ...updates }\<close> is \<open>updates @ products d ! index\<close>.\<close>

definition updateProduct :: "jsval \<Rightarrow> jsobj \<Rightarrow> db \<Rightarrow> jsobj option \<times> db" where
  "updateProduct i updates d =
     (case findIndex (\<lambda>p. strict_eq (property p ''id'') i) (products d) of
        None \<Rightarrow> (None, d)
      | Some index \<Rightarrow>
          (let merged = updates @ products d ! index
           in (Some merged, d\<lparr>products := (products d)[index := merged]\<rparr>)))"

definition deleteProduct :: "jsval \<Rightarrow> db \<Rightarrow> bool \<times> db" where
  "deleteProduct i d =
     (case findIndex (\<lambda>p. strict_eq (property p ''id'') i) (products d) of
        None \<Rightarrow> (False, d)
      | Some index \<Rightarrow>
          (True, d\<lparr>products := take index (products d) @ drop (Suc index) (products d)\<rparr>))"

definition addExhibition :: "exhibition \<Rightarrow> db \<Rightarrow> db" where
  "addExhibition e d = d\<lparr>exhibitions := exhibitions d @ [e]\<rparr>"

definition addExhibitionProduct :: "exhibitionProduct \<Rightarrow> db \<Rightarrow> db" where
  "addExhibitionProduct ep d = d\<lparr>exhibitionProducts := exhibitionProducts d @ [ep]\<rparr>"

text \<open>
  The \<^verbatim>\<open>updates\<close> of \<^verbatim>\<open>updateExhibitionProduct\<close> and of \<^verbatim>\<open>updateProductList\<close> are
  partial records; the merge \<^verbatim>\<open>{ ...row, ...updates }\<close> is the record update they stand
  for, passed as a function.
\<close>

definition updateExhibitionProduct ::
  "jsval \<Rightarrow> (exhibitionProduct \<Rightarrow> exhibitionProduct) \<Rightarrow> db \<Rightarrow> exhibitionProduct option \<times> db" where
  "updateExhibitionProduct i updates d =
     (case findIndex (\<lambda>ep. strict_eq (JStr (ep_id ep)) i) (exhibitionProducts d) of
        None \<Rightarrow> (None, d)
      | Some index \<Rightarrow>
          (let merged = updates (exhibitionProducts d ! index)
           in (Some merged, d\<lparr>exhibitionProducts := (exhibitionProducts d)[index := merged]\<rparr>)))"

definition addOrder :: "jsobj \<Rightarrow> db \<Rightarrow> db" where
  "addOrder order d = d\<lparr>orders := orders d @ [order]\<rparr>"

definition getProductListById :: "db \<Rightarrow> string \<Rightarrow> productList option" where
  "getProductListById d i = find (\<lambda>pl. pl_id pl = i) (productLists d)"

definition addProductList :: "productList \<Rightarrow> db \<Rightarrow> db" where
  "addProductList pl d = d\<lparr>productLists := productLists d @ [pl]\<rparr>"

definition updateProductList ::
  "string \<Rightarrow> (productList \<Rightarrow> productList) \<Rightarrow> db \<Rightarrow> productList option \<times> db" where
  "updateProductList i updates d =
     (case findIndex (\<lambda>pl. pl_id pl = i) (productLists d) of
        None \<Rightarrow> (None, d)
      | Some index \<Rightarrow>
          (let merged = updates (productLists d ! index)
           in (Some merged, d\<lparr>productLists := (productLists d)[index := merged]\<rparr>)))"


definition addProductListItem :: "productListItem \<Rightarrow> db \<Rightarrow> db" where
  "addProductListItem item d = d\<lparr>productListItems := productListItems d @ [item]\<rparr>"

definition deleteProductListItemsByProductListId :: "string \<Rightarrow> db \<Rightarrow> db" where
  "deleteProductListItemsByProductListId productListId d =
     d\<lparr>productListItems :=
         filter (\<lambda>item. pli_productListId item \<noteq> productListId) (productListItems d)\<rparr>"

definition getApprovedExhibitionProducts :: "db \<Rightarrow> jsval \<Rightarrow> exhibitionProduct list" where
  "getApprovedExhibitionProducts d exhibitionId =
     filter (\<lambda>ep. strict_eq (JStr (ep_exhibitionId ep)) exhibitionId
                 \<and> strict_eq (ep_status ep) (JStr ''approved''))
       (exhibitionProducts d)"

definition isProductApprovedForExhibition :: "db \<Rightarrow> jsval \<Rightarrow> jsval \<Rightarrow> bool" where
  "isProductApprovedForExhibition d exhibitionId productId =
     (case find (\<lambda>ep. strict_eq (JStr (ep_exhibitionId ep)) exhibitionId
                      \<and> strict_eq (ep_productId ep) productId)
             (exhibitionProducts d) of
        None \<Rightarrow> False
      | Some ep \<Rightarrow> strict_eq (ep_status ep) (JStr ''approved''))"

definition getPendingExhibitionProducts :: "db \<Rightarrow> exhibitionProduct list" where
  "getPendingExhibitionProducts d =
     filter (\<lambda>ep. strict_eq (ep_status ep) (JStr ''pending'')) (exhibitionProducts d)"

section \<open>The routes\<close>

text \<open>
  A handler takes what it reads from outside as arguments: the \<^verbatim>\<open>x-user-id\<close> header, the
  result of \<^verbatim>\<open>request.json()\<close> (\<open>None\<close> when it rejects), the values of \<^verbatim>\<open>Math.random()\<close>
  already turned into the strings the handler makes of them, and the time stamp. It returns
  its response and the store it leaves. The body of a \<^verbatim>\<open>try\<close> returns \<open>Inl\<close> for a throw,
  with the store as it was when the throw happened, and the handler turns that into its
  500 response.
\<close>

datatype 'r loop = Completed | Thrown js_error | Returned 'r

fun elements :: "jsval \<Rightarrow> jsval list" where
  "elements (JArr xs) = xs"
| "elements v = []"

subsection \<open>\<^verbatim>\<open>POST /api/orders\<close>\<close>

text \<open>
  The loop over \<^verbatim>\<open>items\<close>. The response for an item that is not approved has the
  \<^verbatim>\<open>details\<close> text, a template literal that interpolates \<^verbatim>\<open>product?.name\<close> and then
  \<^verbatim>\<open>item.productId\<close>: when the conversion of one of them to text throws, the loop throws
  instead of returning the response.
\<close>

fun check_items :: "db \<Rightarrow> jsval \<Rightarrow> jsval list \<Rightarrow> (jsobj response) loop" where
  "check_items d exhibitionId [] = Completed"
| "check_items d exhibitionId (item # rest) =
     (case member item ''productId'' of
        Inl e \<Rightarrow> Thrown e
      | Inr productId \<Rightarrow>
          if \<not> isProductApprovedForExhibition d exhibitionId productId
          then (let name = (case getProductById d productId of
                              None \<Rightarrow> JUndefined
                            | Some product \<Rightarrow> property product ''name'')
                in case (to_text name, to_text productId) of
                     (Inr nameText, Inr idText) \<Rightarrow>
                       Returned (Response 400
                         (Error_details ''Cannot create order with unapproved products''
                            name productId))
                   | _ \<Rightarrow> Thrown TypeError)
          else check_items d exhibitionId rest)"

definition orders_try ::
  "string \<Rightarrow> string \<Rightarrow> jsval option \<Rightarrow> db \<Rightarrow> (js_error + jsobj response) \<times> db" where
  "orders_try random now json d =
     (case json of
        None \<Rightarrow> (Inl SyntaxError, d)
      | Some body \<Rightarrow>
          (case (member body ''exhibitionId'', member body ''items'') of
             (Inr exhibitionId, Inr items) \<Rightarrow>
               (case (if truthy exhibitionId \<and> truthy items \<and> isArray items
                      then check_items d exhibitionId (elements items)
                      else Completed) of
                  Thrown e \<Rightarrow> (Inl e, d)
                | Returned response \<Rightarrow> (Inr response, d)
                | Completed \<Rightarrow>
                    (let newOrder =
                       own_props body @
                       [(''id'', JStr random),
                        (''exhibitionId'', exhibitionId),
                        (''createdAt'', JStr now),
                        (''status'', JStr ''DRAFT'')]
                     in (Inr (Response 201 (Payload newOrder)), addOrder newOrder d)))
           | _ \<Rightarrow> (Inl TypeError, d)))"

definition POST_orders ::
  "string \<Rightarrow> string \<Rightarrow> string option \<Rightarrow> jsval option \<Rightarrow> db \<Rightarrow> jsobj response \<times> db" where
  "POST_orders random now header json d =
     (case requireRoles d header (PERMISSIONS ORDER_CREATE) of
        Inl response \<Rightarrow> (response, d)
      | Inr context \<Rightarrow>
          (case orders_try random now json d of
             (Inl e, d') \<Rightarrow> (Response 500 (Error ''Failed to create order''), d')
           | (Inr response, d') \<Rightarrow> (response, d')))"

subsection \<open>\<^verbatim>\<open>POST /api/exhibitions/approve\<close>\<close>

definition approve_try ::
  "jsval option \<Rightarrow> db \<Rightarrow> (js_error + exhibitionProduct response) \<times> db" where
  "approve_try json d =
     (case json of
        None \<Rightarrow> (Inl SyntaxError, d)
      | Some body \<Rightarrow>
          (case (member body ''id'', member body ''status'') of
             (Inr i, Inr status) \<Rightarrow>
               if \<not> js_includes [''approved'', ''rejected''] status
               then (Inr (Response 400 (Error ''Invalid status'')), d)
               else
                 (case updateExhibitionProduct i (\<lambda>ep. ep\<lparr>ep_status := status\<rparr>) d of
                    (None, d') \<Rightarrow> (Inr (Response 404 (Error ''Product not found'')), d')
                  | (Some updatedProduct, d') \<Rightarrow>
                      (Inr (Response 200 (Payload updatedProduct)), d'))
           | _ \<Rightarrow> (Inl TypeError, d)))"

definition POST_approve ::
  "string option \<Rightarrow> jsval option \<Rightarrow> db \<Rightarrow> exhibitionProduct response \<times> db" where
  "POST_approve header json d =
     (case requireRoles d header (PERMISSIONS APPROVAL_APPROVE) of
        Inl response \<Rightarrow> (response, d)
      | Inr context \<Rightarrow>
          (case approve_try json d of
             (Inl e, d') \<Rightarrow> (Response 500 (Error ''Failed to update status''), d')
           | (Inr response, d') \<Rightarrow> (response, d')))"

subsection \<open>\<^verbatim>\<open>POST /api/exhibitions\<close> and \<^verbatim>\<open>POST /api/exhibitions/[id]/products\<close>\<close>

text \<open>
  The \<^verbatim>\<open>forEach\<close> that both routes run over \<^verbatim>\<open>products\<close>. \<open>ids n\<close> is the identifier drawn
  for the \<open>n\<close>-th element. A row pushed before a later element throws stays in the store.
\<close>

fun add_exhibition_products ::
  "string \<Rightarrow> (nat \<Rightarrow> string) \<Rightarrow> nat \<Rightarrow> jsval list \<Rightarrow> db \<Rightarrow> js_error option \<times> db" where
  "add_exhibition_products exhibitionId ids n [] d = (None, d)"
| "add_exhibition_products exhibitionId ids n (p # ps) d =
     (case (member p ''productId'', member p ''quantity'', member p ''price'') of
        (Inr productId, Inr quantity, Inr price) \<Rightarrow>
          add_exhibition_products exhibitionId ids (Suc n) ps
            (addExhibitionProduct
               \<lparr>ep_id = ids n,
                ep_exhibitionId = exhibitionId,
                ep_productId = productId,
                ep_quantity = quantity,
                ep_price = price,
                ep_status = JStr ''pending'',
                ep_supplierId = ''current-user''\<rparr> d)
      | _ \<Rightarrow> (Some TypeError, d))"

definition exhibitions_try ::
  "string \<Rightarrow> string \<Rightarrow> (nat \<Rightarrow> string) \<Rightarrow> jsval option \<Rightarrow> db
     \<Rightarrow> (js_error + exhibition response) \<times> db" where
  "exhibitions_try code random ids json d =
     (case json of
        None \<Rightarrow> (Inl SyntaxError, d)
      | Some body \<Rightarrow>
          (case (member body ''name'', member body ''description'', member body ''startDate'',
                 member body ''endDate'', member body ''products'') of
             (Inr name, Inr description, Inr startDate, Inr endDate, Inr productsField) \<Rightarrow>
               (let newExhibition =
                      \<lparr>ex_id = random,
                       ex_exhibitionId = code,
                       ex_name = name,
                       ex_description = description,
                       ex_startDate = startDate,
                       ex_endDate = endDate,
                       ex_status = ''PLANNING''\<rparr>;
                    d1 = addExhibition newExhibition d
                in if truthy productsField \<and> isArray productsField
                   then (case add_exhibition_products (ex_exhibitionId newExhibition) ids 0
                                (elements productsField) d1 of
                           (Some e, d2) \<Rightarrow> (Inl e, d2)
                         | (None, d2) \<Rightarrow> (Inr (Response 201 (Payload newExhibition)), d2))
                   else (Inr (Response 201 (Payload newExhibition)), d1))
           | _ \<Rightarrow> (Inl TypeError, d)))"

definition POST_exhibitions ::
  "string \<Rightarrow> string \<Rightarrow> (nat \<Rightarrow> string) \<Rightarrow> string option \<Rightarrow> jsval option \<Rightarrow> db
     \<Rightarrow> exhibition response \<times> db" where
  "POST_exhibitions code random ids header json d =
     (case requireRoles d header (PERMISSIONS EXHIBITION_CREATE) of
        Inl response \<Rightarrow> (response, d)
      | Inr context \<Rightarrow>
          (case exhibitions_try code random ids json d of
             (Inl e, d') \<Rightarrow> (Response 500 (Error ''Failed to create exhibition''), d')
           | (Inr response, d') \<Rightarrow> (response, d')))"

definition exhibition_products_try ::
  "string \<Rightarrow> (nat \<Rightarrow> string) \<Rightarrow> jsval option \<Rightarrow> db \<Rightarrow> (js_error + unit response) \<times> db" where
  "exhibition_products_try exhibitionId ids json d =
     (case json of
        None \<Rightarrow> (Inl SyntaxError, d)
      | Some body \<Rightarrow>
          (case member body ''products'' of
             Inl e \<Rightarrow> (Inl e, d)
           | Inr productsField \<Rightarrow>
               if truthy productsField \<and> isArray productsField
               then (case add_exhibition_products exhibitionId ids 0 (elements productsField) d of
                       (Some e, d') \<Rightarrow> (Inl e, d')
                     | (None, d') \<Rightarrow> (Inr (Response 201 Success), d'))
               else (Inr (Response 201 Success), d)))"

definition POST_exhibition_products ::
  "string \<Rightarrow> (nat \<Rightarrow> string) \<Rightarrow> string option \<Rightarrow> jsval option \<Rightarrow> db \<Rightarrow> unit response \<times> db" where
  "POST_exhibition_products exhibitionId ids header json d =
     (case requireRoles d header (PERMISSIONS EXHIBITION_CREATE) of
        Inl response \<Rightarrow> (response, d)
      | Inr context \<Rightarrow>
          (case exhibition_products_try exhibitionId ids json d of
             (Inl e, d') \<Rightarrow> (Response 500 (Error ''Failed to add products''), d')
           | (Inr response, d') \<Rightarrow> (response, d')))"

subsection \<open>\<^verbatim>\<open>/api/products\<close> and \<^verbatim>\<open>/api/products/[id]\<close>\<close>

text \<open>
  The multipart form as the handler reads it: each text field is what \<^verbatim>\<open>formData.get\<close>
  gives (a string or \<^verbatim>\<open>null\<close>), the three numeric fields are the numbers that
  \<^verbatim>\<open>Number(...)\<close> makes of them, and the image is the outcome of storing it: none sent,
  stored under a file name, or a write that throws.
\<close>

datatype upload = No_image | Stored string | Write_failed

record product_form =
  f_image :: upload
  f_id :: "string option"
  f_name :: jsval
  f_category :: jsval
  f_buyingPrice :: jsval
  f_quantity :: jsval
  f_unit :: jsval
  f_thresholdValue :: jsval
  f_expiryDate :: jsval
  f_availability :: jsval

text \<open>\<^verbatim>\<open>formData.get('id') || fallback\<close>.\<close>

definition id_or :: "string option \<Rightarrow> string \<Rightarrow> string" where
  "id_or i fallback = (case i of None \<Rightarrow> fallback | Some s \<Rightarrow> if s \<noteq> [] then s else fallback)"

definition products_try ::
  "string \<Rightarrow> string \<Rightarrow> product_form option \<Rightarrow> db \<Rightarrow> (js_error + jsobj response) \<times> db" where
  "products_try random random2 formData d =
     (case formData of
        None \<Rightarrow> (Inl TypeError, d)
      | Some form \<Rightarrow>
          (case (case f_image form of
                   No_image \<Rightarrow> Inr ''/placeholder.png''
                 | Stored filename \<Rightarrow> Inr (''/uploads/'' @ filename)
                 | Write_failed \<Rightarrow> Inl IOError) of
             Inl e \<Rightarrow> (Inl e, d)
           | Inr imagePath \<Rightarrow>
               (let newProduct =
                      [(''id'', JStr (id_or (f_id form) random)),
                       (''name'', f_name form),
                       (''category'', f_category form),
                       (''buyingPrice'', f_buyingPrice form),
                       (''quantity'', f_quantity form),
                       (''unit'', f_unit form),
                       (''thresholdValue'', f_thresholdValue form),
                       (''expiryDate'', f_expiryDate form),
                       (''availability'', f_availability form),
                       (''image'', JStr imagePath),
                       (''sku'', JStr (''SKU-'' @ id_or (f_id form) random2)),
                       (''isApproved'', JBool False)]
                in (Inr (Response 201 (Payload newProduct)), addProduct newProduct d))))"

definition POST_products ::
  "string \<Rightarrow> string \<Rightarrow> string option \<Rightarrow> product_form option \<Rightarrow> db \<Rightarrow> jsobj response \<times> db" where
  "POST_products random random2 header formData d =
     (case requireRoles d header (PERMISSIONS PRODUCT_CREATE) of
        Inl response \<Rightarrow> (response, d)
      | Inr context \<Rightarrow>
          (case products_try random random2 formData d of
             (Inl e, d') \<Rightarrow> (Response 500 (Error ''Failed to create product''), d')
           | (Inr response, d') \<Rightarrow> (response, d')))"

definition PUT_product ::
  "string \<Rightarrow> string option \<Rightarrow> jsval option \<Rightarrow> db \<Rightarrow> jsobj response \<times> db" where
  "PUT_product i header json d =
     (case requireRoles d header (PERMISSIONS PRODUCT_UPDATE) of
        Inl response \<Rightarrow> (response, d)
      | Inr context \<Rightarrow>
          (case json of
             None \<Rightarrow> (Response 500 (Error ''Failed to update product''), d)
           | Some body \<Rightarrow>
               (case updateProduct (JStr i) (own_props body) d of
                  (None, d') \<Rightarrow> (Response 404 (Error ''Product not found''), d')
                | (Some updatedProduct, d') \<Rightarrow> (Response 200 (Payload updatedProduct), d'))))"

definition DELETE_product :: "string \<Rightarrow> string option \<Rightarrow> db \<Rightarrow> unit response \<times> db" where
  "DELETE_product i header d =
     (case requireRoles d header (PERMISSIONS PRODUCT_DELETE) of
        Inl response \<Rightarrow> (response, d)
      | Inr context \<Rightarrow>
          (case deleteProduct (JStr i) d of
             (False, d') \<Rightarrow> (Response 404 (Error ''Product not found''), d')
           | (True, d') \<Rightarrow> (Response 200 (Message ''Product deleted''), d')))"

subsection \<open>\<^verbatim>\<open>POST /api/product-lists\<close> and \<^verbatim>\<open>PUT /api/product-lists/[id]\<close>\<close>

text \<open>
  \<^verbatim>\<open>items.reduce((sum, item) => sum + item.quantity, 0)\<close>: the items are whatever the body
  holds, so \<^verbatim>\<open>item.quantity\<close> throws on a \<^verbatim>\<open>null\<close> item and \<^verbatim>\<open>+\<close> is the \<^verbatim>\<open>+\<close> of
  JavaScript on whatever the quantities are. \<open>acc\<close> is the \<^verbatim>\<open>sum\<close> of the source.
\<close>

fun sum_quantities :: "jsval \<Rightarrow> jsval list \<Rightarrow> js_error + jsval" where
  "sum_quantities acc [] = Inr acc"
| "sum_quantities acc (item # rest) =
     (case member item ''quantity'' of
        Inl e \<Rightarrow> Inl e
      | Inr quantity \<Rightarrow>
          (case js_plus acc quantity of
             Inl e \<Rightarrow> Inl e
           | Inr acc' \<Rightarrow> sum_quantities acc' rest))"

definition total_quantity :: "jsval list \<Rightarrow> js_error + jsval" where
  "total_quantity items = sum_quantities (JNum 0) items"

text \<open>
  The \<^verbatim>\<open>forEach\<close> that both routes run over \<^verbatim>\<open>items\<close>. \<open>ids n\<close> is the identifier drawn for
  the \<open>n\<close>-th item.
\<close>

fun add_list_items ::
  "string \<Rightarrow> (nat \<Rightarrow> string) \<Rightarrow> nat \<Rightarrow> jsval list \<Rightarrow> db \<Rightarrow> js_error option \<times> db" where
  "add_list_items productListId ids n [] d = (None, d)"
| "add_list_items productListId ids n (item # rest) d =
     (case (member item ''productId'', member item ''quantity'', member item ''price'') of
        (Inr productId, Inr quantity, Inr price) \<Rightarrow>
          add_list_items productListId ids (Suc n) rest
            (addProductListItem
               \<lparr>pli_id = ids n,
                pli_productListId = productListId,
                pli_productId = productId,
                pli_quantity = quantity,
                pli_price = (if truthy price then price else JNum 0)\<rparr> d)
      | _ \<Rightarrow> (Some TypeError, d))"

definition product_lists_try ::
  "string \<Rightarrow> string \<Rightarrow> (nat \<Rightarrow> string) \<Rightarrow> jsval option \<Rightarrow> db
     \<Rightarrow> (js_error + productList response) \<times> db" where
  "product_lists_try random now ids json d =
     (case json of
        None \<Rightarrow> (Inl SyntaxError, d)
      | Some body \<Rightarrow>
          (case (member body ''exhibitionId'', member body ''supplierId'', member body ''items'') of
             (Inr exhibitionId, Inr supplierId, Inr items) \<Rightarrow>
               if \<not> truthy exhibitionId \<or> \<not> truthy supplierId \<or> \<not> truthy items
                  \<or> \<not> isArray items
               then (Inr (Response 400 (Error ''Invalid input'')), d)
               else
                 (case total_quantity (elements items) of
                    Inl e \<Rightarrow> (Inl e, d)
                  | Inr totalQuantity \<Rightarrow>
                      (let newProductList =
                             \<lparr>pl_id = random,
                              pl_exhibitionId = exhibitionId,
                              pl_supplierId = supplierId,
                              pl_status = JStr ''pending'',
                              pl_createdAt = now,
                              pl_totalQuantity = totalQuantity\<rparr>;
                           d1 = addProductList newProductList d
                       in case add_list_items (pl_id newProductList) ids 0 (elements items) d1 of
                            (Some e, d2) \<Rightarrow> (Inl e, d2)
                          | (None, d2) \<Rightarrow> (Inr (Response 201 (Payload newProductList)), d2)))
           | _ \<Rightarrow> (Inl TypeError, d)))"

definition POST_product_lists ::
  "string \<Rightarrow> string \<Rightarrow> (nat \<Rightarrow> string) \<Rightarrow> string option \<Rightarrow> jsval option \<Rightarrow> db
     \<Rightarrow> productList response \<times> db" where
  "POST_product_lists random now ids header json d =
     (case requireRoles d header (PERMISSIONS ORDER_CREATE) of
        Inl response \<Rightarrow> (response, d)
      | Inr context \<Rightarrow>
          (case product_lists_try random now ids json d of
             (Inl e, d') \<Rightarrow> (Response 500 (Error ''Failed to create product list''), d')
           | (Inr response, d') \<Rightarrow> (response, d')))"

text \<open>
  In the update, the status is written before the items are looked at: a throw of the
  \<^verbatim>\<open>reduce\<close> leaves the new status in the store.
\<close>

definition product_list_try ::
  "string \<Rightarrow> (nat \<Rightarrow> string) \<Rightarrow> jsval option \<Rightarrow> db \<Rightarrow> (js_error + unit response) \<times> db" where
  "product_list_try i ids json d =
     (case json of
        None \<Rightarrow> (Inl SyntaxError, d)
      | Some body \<Rightarrow>
          (case (member body ''status'', member body ''items'') of
             (Inr status, Inr items) \<Rightarrow>
               (case getProductListById d i of
                  None \<Rightarrow> (Inr (Response 404 (Error ''Product list not found'')), d)
                | Some list \<Rightarrow>
                    (let d1 = (if truthy status
                               then snd (updateProductList (pl_id list)
                                           (\<lambda>pl. pl\<lparr>pl_status := status\<rparr>) d)
                               else d)
                     in if truthy items \<and> isArray items
                        then (case total_quantity (elements items) of
                                Inl e \<Rightarrow> (Inl e, d1)
                              | Inr totalQuantity \<Rightarrow>
                                  (let updated = snd (updateProductList (pl_id list)
                                                    (\<lambda>pl. pl\<lparr>pl_totalQuantity := totalQuantity\<rparr>) d1);
                                       emptied = deleteProductListItemsByProductListId
                                                   (pl_id list) updated
                                   in case add_list_items (pl_id list) ids 0 (elements items)
                                             emptied of
                                        (Some e, d2) \<Rightarrow> (Inl e, d2)
                                      | (None, d2) \<Rightarrow> (Inr (Response 200 Success), d2)))
                        else (Inr (Response 200 Success), d1)))
           | _ \<Rightarrow> (Inl TypeError, d)))"

definition PUT_product_list ::
  "string \<Rightarrow> (nat \<Rightarrow> string) \<Rightarrow> string option \<Rightarrow> jsval option \<Rightarrow> db
     \<Rightarrow> unit response \<times> db" where
  "PUT_product_list i ids header json d =
     (case requireRoles d header (PERMISSIONS ORDER_UPDATE) of
        Inl response \<Rightarrow> (response, d)
      | Inr context \<Rightarrow>
          (case product_list_try i ids json d of
             (Inl e, d') \<Rightarrow> (Response 500 (Error ''Failed to update product list''), d')
           | (Inr response, d') \<Rightarrow> (response, d')))"

section \<open>Sequences of requests\<close>

text \<open>The mutating requests, each with everything its handler reads from outside.\<close>

datatype operation =
    Create_product string string "string option" "product_form option"
  | Update_product string "string option" "jsval option"
  | Delete_product string "string option"
  | Create_exhibition string string "nat \<Rightarrow> string" "string option" "jsval option"
  | Add_exhibition_products string "nat \<Rightarrow> string" "string option" "jsval option"
  | Set_approval "string option" "jsval option"
  | Create_order string string "string option" "jsval option"
  | Create_product_list string string "nat \<Rightarrow> string" "string option" "jsval option"
  | Update_product_list string "nat \<Rightarrow> string" "string option" "jsval option"

fun apply_operation :: "operation \<Rightarrow> db \<Rightarrow> db" where
  "apply_operation (Create_product random random2 header form) d =
     snd (POST_products random random2 header form d)"
| "apply_operation (Update_product i header json) d = snd (PUT_product i header json d)"
| "apply_operation (Delete_product i header) d = snd (DELETE_product i header d)"
| "apply_operation (Create_exhibition code random ids header json) d =
     snd (POST_exhibitions code random ids header json d)"
| "apply_operation (Add_exhibition_products exhibitionId ids header json) d =
     snd (POST_exhibition_products exhibitionId ids header json d)"
| "apply_operation (Set_approval header json) d = snd (POST_approve header json d)"
| "apply_operation (Create_order random now header json) d =
     snd (POST_orders random now header json d)"
| "apply_operation (Create_product_list random now ids header json) d =
     snd (POST_product_lists random now ids header json d)"
| "apply_operation (Update_product_list i ids header json) d =
     snd (PUT_product_list i ids header json d)"

definition run :: "operation list \<Rightarrow> db \<Rightarrow> db" where
  "run ops d = fold apply_operation ops d"

section \<open>What a sequence of requests keeps\<close>

text \<open>
  \<open>keeps_decisions xs ys\<close>: the table \<open>ys\<close> still has every row of \<open>xs\<close> at its place, for the
  same exhibition and product and under the same identifier, and a row that was approved or
  rejected in \<open>xs\<close> is approved or rejected in \<open>ys\<close>.
\<close>

definition keeps_decisions :: "exhibitionProduct list \<Rightarrow> exhibitionProduct list \<Rightarrow> bool" where
  "keeps_decisions xs ys \<longleftrightarrow>
     length xs \<le> length ys \<and>
     (\<forall>n<length xs.
        ep_id (ys ! n) = ep_id (xs ! n) \<and>
        ep_exhibitionId (ys ! n) = ep_exhibitionId (xs ! n) \<and>
        ep_productId (ys ! n) = ep_productId (xs ! n) \<and>
        (ep_status (xs ! n) \<in> {JStr ''approved'', JStr ''rejected''}
           \<longrightarrow> ep_status (ys ! n) \<in> {JStr ''approved'', JStr ''rejected''}))"






fun safe_sums :: "int \<Rightarrow> int list \<Rightarrow> bool" where
  "safe_sums a [] = True"
| "safe_sums a (q # qs) = (to_double (a + q) = JNum (a + q) \<and> safe_sums (a + q) qs)"





section \<open>The permission evaluator\<close>

lemma spec_role_cases:
  "(\<exists>r. P r) = (P ADMIN \<or> P MANAGER \<or> P OPERATOR \<or> P VIEWER)"
  by (metis spec_role.exhaust)

lemma all_roles_complete: "set all_roles = UNIV"
  using spec_role.exhaust by (auto simp: all_roles_def)

lemma all_permissions_complete: "set all_permissions = UNIV"
  using permission.exhaust by (auto simp: all_permissions_def)

lemma permission_pairs_count: "length (List.product all_roles all_permissions) = 48"
  by (simp add: all_roles_def all_permissions_def)

lemma hasRole_table:
  "hasRole (Some u) (PERMISSIONS c) \<longleftrightarrow> (\<exists>r. role u = code_role_name r \<and> spec_table r c)"
  unfolding spec_role_cases by (cases c) (auto simp: hasRole_def)

lemma requireRoles_authorized_iff:
  "(\<exists>v. requireRoles d header allowedRoles = (Inr v :: 'a response + user))
     \<longleftrightarrow> (\<exists>v. authenticateUser d header = Some v \<and> hasRole (Some v) allowedRoles)"
  by (auto simp: requireRoles_def requireAuth_def split: option.splits)

text \<open>
  C3. For each role and each capability of the table, \<open>hasRole\<close> on the role list of the
  capability returns the entry of the table, and so does \<open>checkPermission\<close>: the pairs of
  the four roles with the twelve capabilities are listed and checked one by one, and the
  same is said once for every user, where it also says that a user whose role is none of
  the four is refused every capability. A request without a context is refused every
  capability. At a route, \<open>requireRoles\<close> lets a request through exactly when the user it
  authenticates has a role to which the table grants the capability, and it answers every
  other request with its 401 or its 403 response. The evaluator is a test of membership in
  a list: it has no statement that can throw and it writes nothing.
\<close>

theorem permission_matrix:
  "list_all (\<lambda>(r, c). hasRole (Some \<lparr>u_id = i, username = n, role = code_role_name r, fullName = f\<rparr>)
                         (PERMISSIONS c) = spec_table r c)
     (List.product all_roles all_permissions)
   \<and> set (List.product all_roles all_permissions) = UNIV
   \<and> (hasRole (Some u) (PERMISSIONS c) \<longleftrightarrow> (\<exists>r. role u = code_role_name r \<and> spec_table r c))
   \<and> (checkPermission (Some u) (PERMISSIONS c)
        \<longleftrightarrow> (\<exists>r. role u = code_role_name r \<and> spec_table r c))
   \<and> hasRole None (PERMISSIONS c) = False
   \<and> ((\<exists>v. requireRoles d header (PERMISSIONS c) = (Inr v :: unit response + user))
        \<longleftrightarrow> (\<exists>v r. authenticateUser d header = Some v \<and> role v = code_role_name r
                   \<and> spec_table r c))
   \<and> ((\<exists>v. requireRoles d header (PERMISSIONS c) = (Inr v :: unit response + user))
        \<or> requireRoles d header (PERMISSIONS c)
            = (Inl (Response 401 (Error ''Unauthorized'')) :: unit response + user)
        \<or> requireRoles d header (PERMISSIONS c)
            = (Inl (Response 403 (Error ''Forbidden - Insufficient permissions''))
                :: unit response + user))"
proof -
  have cells: "list_all (\<lambda>(r, c). hasRole (Some \<lparr>u_id = i, username = n, role = code_role_name r,
                                                fullName = f\<rparr>)
                         (PERMISSIONS c) = spec_table r c)
     (List.product all_roles all_permissions)"
    by (simp add: all_roles_def all_permissions_def hasRole_def)
  have complete: "set (List.product all_roles all_permissions) = UNIV"
    by (simp add: all_roles_complete all_permissions_complete)
  have check: "checkPermission (Some u) (PERMISSIONS c)
        \<longleftrightarrow> (\<exists>r. role u = code_role_name r \<and> spec_table r c)"
    by (simp add: checkPermission_def hasRole_table)
  have none: "hasRole None (PERMISSIONS c) = False"
    by (simp add: hasRole_def)
  have route: "(\<exists>v. requireRoles d header (PERMISSIONS c) = (Inr v :: unit response + user))
        \<longleftrightarrow> (\<exists>v r. authenticateUser d header = Some v \<and> role v = code_role_name r
                   \<and> spec_table r c)"
    unfolding requireRoles_authorized_iff hasRole_table by blast
  have answer: "(\<exists>v. requireRoles d header (PERMISSIONS c) = (Inr v :: unit response + user))
        \<or> requireRoles d header (PERMISSIONS c)
            = (Inl (Response 401 (Error ''Unauthorized'')) :: unit response + user)
        \<or> requireRoles d header (PERMISSIONS c)
            = (Inl (Response 403 (Error ''Forbidden - Insufficient permissions''))
                :: unit response + user)"
    by (simp add: requireRoles_def requireAuth_def split: option.splits)
  from cells complete hasRole_table [of u c] check none route answer show ?thesis
    by (intro conjI)
qed

section \<open>Authentication without a header\<close>

lemma requireAuth_401:
  assumes "users d = INITIAL_users"
  shows "(requireAuth d h :: 'a response + user) = Inl r
         \<longleftrightarrow> r = Response 401 (Error ''Unauthorized'')
             \<and> (\<exists>v. h = Some v \<and> v \<noteq> [] \<and> getUserById d v = None)"
  using assms
  by (auto simp: requireAuth_def authenticateUser_def getUserById_def INITIAL_users_def
           split: option.splits if_splits)

text \<open>
  C10: in a store that holds the seeded users, a request without the \<^verbatim>\<open>x-user-id\<close> header
  is authenticated as the seeded user \<open>u3\<close>, whose role is \<open>USER\<close>; \<open>requireAuth\<close> refuses a
  request, and then with 401, exactly when the header is present, is not empty and names
  no user; and \<open>requireRoles\<close> on a request without the header allows exactly the role lists
  that contain \<open>USER\<close>.
\<close>

theorem headerless_request_is_user_u3:
  assumes "users d = INITIAL_users"
  shows "authenticateUser d None
           = Some \<lparr>u_id = ''u3'', username = ''staff'', role = ''USER'',
                   fullName = ''Operational Staff''\<rparr>
         \<and> (\<forall>h r. (requireAuth d h :: unit response + user) = Inl r
               \<longleftrightarrow> r = Response 401 (Error ''Unauthorized'')
                   \<and> (\<exists>v. h = Some v \<and> v \<noteq> [] \<and> getUserById d v = None))
         \<and> (\<forall>allowedRoles. (requireRoles d None allowedRoles :: unit response + user)
               = (if ''USER'' \<in> set allowedRoles
                  then Inr \<lparr>u_id = ''u3'', username = ''staff'', role = ''USER'',
                            fullName = ''Operational Staff''\<rparr>
                  else Inl (Response 403 (Error ''Forbidden - Insufficient permissions''))))"
proof -
  have a: "authenticateUser d None
           = Some \<lparr>u_id = ''u3'', username = ''staff'', role = ''USER'',
                   fullName = ''Operational Staff''\<rparr>"
    using assms by (simp add: authenticateUser_def getUserById_def INITIAL_users_def)
  have b: "\<forall>h r. (requireAuth d h :: unit response + user) = Inl r
               \<longleftrightarrow> r = Response 401 (Error ''Unauthorized'')
                   \<and> (\<exists>v. h = Some v \<and> v \<noteq> [] \<and> getUserById d v = None)"
    using requireAuth_401 [OF assms] by blast
  have c: "\<forall>allowedRoles. (requireRoles d None allowedRoles :: unit response + user)
               = (if ''USER'' \<in> set allowedRoles
                  then Inr \<lparr>u_id = ''u3'', username = ''staff'', role = ''USER'',
                            fullName = ''Operational Staff''\<rparr>
                  else Inl (Response 403 (Error ''Forbidden - Insufficient permissions'')))"
    by (simp add: requireRoles_def requireAuth_def a hasRole_def)
  from a b c show ?thesis by (intro conjI)
qed

text \<open>
  On the seeded store: no header gives \<open>u3\<close>; the header \<open>u9\<close>, which names no user, gives
  401; and without a header the deletion of a product, which only \<open>ADMIN\<close> may do, is
  forbidden.
\<close>

theorem headerless_request_is_user_u3_witness:
  "users INITIAL_DATA = INITIAL_users
   \<and> authenticateUser INITIAL_DATA None
       = Some \<lparr>u_id = ''u3'', username = ''staff'', role = ''USER'',
               fullName = ''Operational Staff''\<rparr>
   \<and> (requireAuth INITIAL_DATA (Some ''u9'') :: unit response + user)
       = Inl (Response 401 (Error ''Unauthorized''))
   \<and> getUserById INITIAL_DATA ''u9'' = None
   \<and> (requireRoles INITIAL_DATA None (PERMISSIONS PRODUCT_DELETE) :: unit response + user)
       = Inl (Response 403 (Error ''Forbidden - Insufficient permissions''))"
proof -
  have u: "users INITIAL_DATA = INITIAL_users"
    by (simp add: INITIAL_DATA_def)
  have r: "(requireAuth INITIAL_DATA (Some ''u9'') :: unit response + user)
             = Inl (Response 401 (Error ''Unauthorized''))"
    by (simp add: requireAuth_def authenticateUser_def getUserById_def u INITIAL_users_def)
  note t = headerless_request_is_user_u3 [OF u]
  have a: "authenticateUser INITIAL_DATA None
       = Some \<lparr>u_id = ''u3'', username = ''staff'', role = ''USER'',
               fullName = ''Operational Staff''\<rparr>"
    using t by (rule conjunct1)
  have g: "getUserById INITIAL_DATA ''u9'' = None"
    using t r by blast
  have f: "(requireRoles INITIAL_DATA None (PERMISSIONS PRODUCT_DELETE) :: unit response + user)
       = Inl (Response 403 (Error ''Forbidden - Insufficient permissions''))"
    using t by simp
  show ?thesis
    using u a r g f by (intro conjI)
qed

section \<open>Order creation and the approval gate\<close>

lemma strict_eq_JStr [simp]: "strict_eq (JStr s) v = (v = JStr s)" "strict_eq v (JStr s) = (v = JStr s)"
  by (auto simp: strict_eq_def)

lemma isApproved_iff_first_row:
  "isProductApprovedForExhibition d e p \<longleftrightarrow>
     (\<exists>ep. find (\<lambda>ep. strict_eq (JStr (ep_exhibitionId ep)) e \<and> strict_eq (ep_productId ep) p)
             (exhibitionProducts d) = Some ep \<and> ep_status ep = JStr ''approved'')"
  by (auto simp: isProductApprovedForExhibition_def split: option.splits)

text \<open>
  When the conversion to text succeeds: always on a value that is neither an array nor an
  object, and on an object exactly when it has no \<^verbatim>\<open>toString\<close> property of its own.
\<close>

lemma to_text_primitive: "\<not> is_reference v \<Longrightarrow> \<exists>t. to_text v = Inr t"
  by (cases v) auto

lemma to_text_object:
  "(\<exists>t. to_text (JObj obj) = Inr t) \<longleftrightarrow> map_of obj ''toString'' = None"
  by auto

lemma to_text_error: "to_text v = Inl e \<Longrightarrow> e = TypeError"
  and join_texts_error: "join_texts vs = Inl e \<Longrightarrow> e = TypeError"
  by (induction v and vs rule: to_text_join_texts.induct)
     (auto split: if_splits sum.splits)

lemma check_items_Completed:
  "check_items d e items = Completed \<longleftrightarrow>
     (\<forall>item \<in> set items. \<exists>p. member item ''productId'' = Inr p \<and> isProductApprovedForExhibition d e p)"
  by (induction items) (auto simp: Let_def split: sum.splits)

lemma check_items_Returned:
  "find (\<lambda>item. \<not> (\<exists>p. member item ''productId'' = Inr p \<and> isProductApprovedForExhibition d e p)) items = Some item
   \<Longrightarrow> member item ''productId'' = Inr p
   \<Longrightarrow> to_text (case getProductById d p of
                   None \<Rightarrow> JUndefined
                 | Some product \<Rightarrow> property product ''name'') = Inr nameText
   \<Longrightarrow> to_text p = Inr idText
   \<Longrightarrow> check_items d e items = Returned (Response 400
                 (Error_details ''Cannot create order with unapproved products''
                    (case getProductById d p of
                       None \<Rightarrow> JUndefined
                     | Some product \<Rightarrow> property product ''name'')
                    p))"
  by (induction items) (auto simp: Let_def split: sum.splits if_splits)

lemma check_items_Thrown:
  "find (\<lambda>item. \<not> (\<exists>p. member item ''productId'' = Inr p \<and> isProductApprovedForExhibition d e p)) items = Some item
   \<Longrightarrow> member item ''productId'' = Inr p
   \<Longrightarrow> to_text (case getProductById d p of
                   None \<Rightarrow> JUndefined
                 | Some product \<Rightarrow> property product ''name'') = Inl x \<or> to_text p = Inl x
   \<Longrightarrow> check_items d e items = Thrown TypeError"
  by (induction items) (auto simp: Let_def split: sum.splits if_splits)

lemma check_items_not_201: "check_items d e items = Returned r \<Longrightarrow> status_code r = 400"
  by (induction items) (auto simp: Let_def split: sum.splits if_splits)

lemma POST_orders_authorized:
  "requireRoles d header (PERMISSIONS ORDER_CREATE) = (Inr u :: jsobj response + user) \<Longrightarrow>
   POST_orders random now header json d =
     (case orders_try random now json d of
        (Inl e, d') \<Rightarrow> (Response 500 (Error ''Failed to create order''), d')
      | (Inr response, d') \<Rightarrow> (response, d'))"
  by (simp add: POST_orders_def)

lemma orders_try_checked:
  assumes "property body ''exhibitionId'' = e" "truthy e" "property body ''items'' = JArr items"
  shows "orders_try random now (Some (JObj body)) d =
     (case check_items d e items of
        Thrown e \<Rightarrow> (Inl e, d)
      | Returned response \<Rightarrow> (Inr response, d)
      | Completed \<Rightarrow>
          (Inr (Response 201 (Payload (body @ [(''id'', JStr random), (''exhibitionId'', e),
                        (''createdAt'', JStr now), (''status'', JStr ''DRAFT'')]))),
           d\<lparr>orders := orders d @ [body @ [(''id'', JStr random), (''exhibitionId'', e),
                        (''createdAt'', JStr now), (''status'', JStr ''DRAFT'')]]\<rparr>))"
  using assms by (simp add: orders_try_def addOrder_def Let_def split: loop.splits)

lemma find_SomeD: "find P xs = Some x \<Longrightarrow> P x \<and> x \<in> set xs"
  by (induction xs) (auto split: if_splits)

lemma find_SomeI: "x \<in> set xs \<Longrightarrow> P x \<Longrightarrow> \<exists>y. find P xs = Some y"
  by (induction xs) auto

lemma no_approved_row_not_approved:
  assumes "\<forall>ep \<in> set (exhibitionProducts d).
             strict_eq (JStr (ep_exhibitionId ep)) e \<and> strict_eq (ep_productId ep) p
             \<longrightarrow> ep_status ep \<noteq> JStr ''approved''"
  shows "\<not> isProductApprovedForExhibition d e p"
  using assms unfolding isApproved_iff_first_row
  by (blast dest: find_SomeD)

lemma single_row_approved_iff:
  assumes "\<forall>ep \<in> set (exhibitionProducts d). \<forall>ep' \<in> set (exhibitionProducts d).
             strict_eq (JStr (ep_exhibitionId ep)) e \<and> strict_eq (ep_productId ep) p
             \<and> strict_eq (JStr (ep_exhibitionId ep')) e \<and> strict_eq (ep_productId ep') p
             \<longrightarrow> ep = ep'"
  shows "isProductApprovedForExhibition d e p \<longleftrightarrow>
           (\<exists>ep \<in> set (exhibitionProducts d).
              strict_eq (JStr (ep_exhibitionId ep)) e \<and> strict_eq (ep_productId ep) p
              \<and> ep_status ep = JStr ''approved'')"
proof
  assume "isProductApprovedForExhibition d e p"
  then show "\<exists>ep \<in> set (exhibitionProducts d).
              strict_eq (JStr (ep_exhibitionId ep)) e \<and> strict_eq (ep_productId ep) p
              \<and> ep_status ep = JStr ''approved''"
    unfolding isApproved_iff_first_row
    by (blast dest: find_SomeD)
next
  assume "\<exists>ep \<in> set (exhibitionProducts d).
              strict_eq (JStr (ep_exhibitionId ep)) e \<and> strict_eq (ep_productId ep) p
              \<and> ep_status ep = JStr ''approved''"
  then obtain ep where ep: "ep \<in> set (exhibitionProducts d)"
      "strict_eq (JStr (ep_exhibitionId ep)) e \<and> strict_eq (ep_productId ep) p"
      "ep_status ep = JStr ''approved''"
    by blast
  then obtain ep' where f: "find (\<lambda>ep. strict_eq (JStr (ep_exhibitionId ep)) e
                                    \<and> strict_eq (ep_productId ep) p) (exhibitionProducts d) = Some ep'"
    using find_SomeI [of ep "exhibitionProducts d"
        "\<lambda>ep. strict_eq (JStr (ep_exhibitionId ep)) e \<and> strict_eq (ep_productId ep) p"]
    by blast
  then have "ep' \<in> set (exhibitionProducts d)"
      "strict_eq (JStr (ep_exhibitionId ep')) e \<and> strict_eq (ep_productId ep') p"
    by (blast dest: find_SomeD)+
  with ep assms have "ep' = ep" by blast
  with f ep show "isProductApprovedForExhibition d e p"
    unfolding isApproved_iff_first_row by blast
qed

lemma POST_orders_checked:
  assumes auth: "requireRoles d header (PERMISSIONS ORDER_CREATE) = (Inr u :: jsobj response + user)"
    and e: "property body ''exhibitionId'' = e" "truthy e"
    and items: "property body ''items'' = JArr items"
  shows "POST_orders random now header (Some (JObj body)) d =
     (case check_items d e items of
        Thrown e \<Rightarrow> (Response 500 (Error ''Failed to create order''), d)
      | Returned response \<Rightarrow> (response, d)
      | Completed \<Rightarrow>
          (Response 201 (Payload (body @ [(''id'', JStr random), (''exhibitionId'', e),
                        (''createdAt'', JStr now), (''status'', JStr ''DRAFT'')])),
           d\<lparr>orders := orders d @ [body @ [(''id'', JStr random), (''exhibitionId'', e),
                        (''createdAt'', JStr now), (''status'', JStr ''DRAFT'')]]\<rparr>))"
  by (simp add: POST_orders_authorized [OF auth] orders_try_checked [OF e items] split: loop.splits)

text \<open>
  C1, amended. For an authorised caller and a body that is an object with a truthy
  \<^verbatim>\<open>exhibitionId\<close> \<open>e\<close> and an array \<^verbatim>\<open>items\<close>, in a store where the rows of the table for
  \<open>e\<close> and the \<^verbatim>\<open>productId\<close> of an item are all the same row (so when each such pair has at
  most one row): the order is created (201, one order appended) exactly when every item
  has a row for \<open>e\<close> and its \<^verbatim>\<open>productId\<close> whose status is \<open>approved\<close>; when the first item
  that the check refuses has a readable \<^verbatim>\<open>productId\<close>, and this id and the name of the
  product with this id (\<^verbatim>\<open>undefined\<close> when there is none) can both be turned into the text
  of the message, the answer is the 400 response that carries them, and the store is
  unchanged; and whenever the answer is not the 201, the store is unchanged.
\<close>

theorem createOrder_gate:
  assumes auth: "requireRoles d header (PERMISSIONS ORDER_CREATE) = (Inr u :: jsobj response + user)"
    and e: "property body ''exhibitionId'' = e" "truthy e"
    and items: "property body ''items'' = JArr items"
    and unique: "\<forall>item \<in> set items. \<forall>p. member item ''productId'' = Inr p \<longrightarrow>
                   (\<forall>ep \<in> set (exhibitionProducts d). \<forall>ep' \<in> set (exhibitionProducts d).
                      strict_eq (JStr (ep_exhibitionId ep)) e \<and> strict_eq (ep_productId ep) p
                      \<and> strict_eq (JStr (ep_exhibitionId ep')) e \<and> strict_eq (ep_productId ep') p
                      \<longrightarrow> ep = ep')"
  shows "((\<exists>order. POST_orders random now header (Some (JObj body)) d
                   = (Response 201 (Payload order), d\<lparr>orders := orders d @ [order]\<rparr>))
          \<longleftrightarrow> (\<forall>item \<in> set items. \<exists>p. member item ''productId'' = Inr p
                 \<and> (\<exists>ep \<in> set (exhibitionProducts d).
                       strict_eq (JStr (ep_exhibitionId ep)) e \<and> strict_eq (ep_productId ep) p
                       \<and> ep_status ep = JStr ''approved'')))
       \<and> (\<forall>item p nameText idText.
              find (\<lambda>item. \<not> (\<exists>p. member item ''productId'' = Inr p
                                        \<and> isProductApprovedForExhibition d e p)) items = Some item
                  \<and> member item ''productId'' = Inr p
                  \<and> to_text (case getProductById d p of None \<Rightarrow> JUndefined
                              | Some product \<Rightarrow> property product ''name'') = Inr nameText
                  \<and> to_text p = Inr idText
            \<longrightarrow> POST_orders random now header (Some (JObj body)) d
                  = (Response 400
                       (Error_details ''Cannot create order with unapproved products''
                          (case getProductById d p of None \<Rightarrow> JUndefined
                           | Some product \<Rightarrow> property product ''name'') p), d))
       \<and> ((\<forall>order. fst (POST_orders random now header (Some (JObj body)) d) \<noteq> Response 201 (Payload order))
            \<longrightarrow> snd (POST_orders random now header (Some (JObj body)) d) = d)"
proof -
  note post = POST_orders_checked [OF auth e items, of random now]
  have rows: "(\<exists>p. member item ''productId'' = Inr p \<and> isProductApprovedForExhibition d e p)
          \<longleftrightarrow> (\<exists>p. member item ''productId'' = Inr p
                 \<and> (\<exists>ep \<in> set (exhibitionProducts d).
                       strict_eq (JStr (ep_exhibitionId ep)) e \<and> strict_eq (ep_productId ep) p
                       \<and> ep_status ep = JStr ''approved''))"
    if "item \<in> set items" for item
  proof -
    have "isProductApprovedForExhibition d e p \<longleftrightarrow>
           (\<exists>ep \<in> set (exhibitionProducts d).
              strict_eq (JStr (ep_exhibitionId ep)) e \<and> strict_eq (ep_productId ep) p
              \<and> ep_status ep = JStr ''approved'')"
      if "member item ''productId'' = Inr p" for p
      using unique \<open>item \<in> set items\<close> that by (intro single_row_approved_iff) blast
    then show ?thesis by blast
  qed
  have one: "(\<exists>order. POST_orders random now header (Some (JObj body)) d
                   = (Response 201 (Payload order), d\<lparr>orders := orders d @ [order]\<rparr>))
          \<longleftrightarrow> (\<forall>item \<in> set items. \<exists>p. member item ''productId'' = Inr p
                 \<and> isProductApprovedForExhibition d e p)"
    unfolding post check_items_Completed [symmetric]
    by (auto split: loop.splits dest: check_items_not_201)
  have two: "POST_orders random now header (Some (JObj body)) d
                  = (Response 400
                       (Error_details ''Cannot create order with unapproved products''
                          (case getProductById d p of None \<Rightarrow> JUndefined
                           | Some product \<Rightarrow> property product ''name'') p), d)"
    if "find (\<lambda>item. \<not> (\<exists>p. member item ''productId'' = Inr p
                                        \<and> isProductApprovedForExhibition d e p)) items = Some item"
       "member item ''productId'' = Inr p"
       "to_text (case getProductById d p of None \<Rightarrow> JUndefined
                 | Some product \<Rightarrow> property product ''name'') = Inr nameText"
       "to_text p = Inr idText" for item p nameText idText
    unfolding post using check_items_Returned [OF that] by simp
  have three: "snd (POST_orders random now header (Some (JObj body)) d) = d"
    if "\<forall>order. fst (POST_orders random now header (Some (JObj body)) d) \<noteq> Response 201 (Payload order)"
    using that unfolding post by (auto split: loop.splits)
  have one': "(\<exists>order. POST_orders random now header (Some (JObj body)) d
                   = (Response 201 (Payload order), d\<lparr>orders := orders d @ [order]\<rparr>))
          \<longleftrightarrow> (\<forall>item \<in> set items. \<exists>p. member item ''productId'' = Inr p
                 \<and> (\<exists>ep \<in> set (exhibitionProducts d).
                       strict_eq (JStr (ep_exhibitionId ep)) e \<and> strict_eq (ep_productId ep) p
                       \<and> ep_status ep = JStr ''approved''))"
    unfolding one using rows by blast
  from one' two three show ?thesis by blast
qed

lemma requireRoles_seed_headerless:
  "(requireRoles INITIAL_DATA None (PERMISSIONS ORDER_CREATE) :: 'a response + user)
     = Inr \<lparr>u_id = ''u3'', username = ''staff'', role = ''USER'', fullName = ''Operational Staff''\<rparr>"
  by (simp add: requireRoles_def requireAuth_def authenticateUser_def getUserById_def hasRole_def
        INITIAL_DATA_def INITIAL_users_def)

text \<open>
  The gate on the seeded store, with the two requests of \<^verbatim>\<open>test-api.ps1\<close>: product 456567
  is approved for EX-2941 and product 456570 is pending.
\<close>

theorem createOrder_gate_witness:
  "(\<exists>order. POST_orders ''1234'' ''2026-01-01T00:00:00.000Z'' None
       (Some (JObj [(''exhibitionId'', JStr ''EX-2941''),
                    (''items'', JArr [JObj [(''productId'', JStr ''456567''), (''quantity'', JNum 10)]])]))
       INITIAL_DATA
     = (Response 201 (Payload order), INITIAL_DATA\<lparr>orders := orders INITIAL_DATA @ [order]\<rparr>))
   \<and> POST_orders ''1234'' ''2026-01-01T00:00:00.000Z'' None
       (Some (JObj [(''exhibitionId'', JStr ''EX-2941''),
                    (''items'', JArr [JObj [(''productId'', JStr ''456567''), (''quantity'', JNum 10)],
                                      JObj [(''productId'', JStr ''456570''), (''quantity'', JNum 5)]])]))
       INITIAL_DATA
     = (Response 400 (Error_details ''Cannot create order with unapproved products''
                        (JStr ''Bourn Vita'') (JStr ''456570'')), INITIAL_DATA)"
proof -
  let ?good = "JObj [(''productId'', JStr ''456567''), (''quantity'', JNum 10)]"
  let ?bad = "JObj [(''productId'', JStr ''456570''), (''quantity'', JNum 5)]"
  let ?b1 = "[(''exhibitionId'', JStr ''EX-2941''), (''items'', JArr [?good])]"
  let ?b2 = "[(''exhibitionId'', JStr ''EX-2941''), (''items'', JArr [?good, ?bad])]"
  have e1: "property ?b1 ''exhibitionId'' = JStr ''EX-2941''"
    and i1: "property ?b1 ''items'' = JArr [?good]"
    and e2: "property ?b2 ''exhibitionId'' = JStr ''EX-2941''"
    and i2: "property ?b2 ''items'' = JArr [?good, ?bad]"
    and t: "truthy (JStr ''EX-2941'')"
    by (simp_all add: property_def)
  have eps: "exhibitionProducts INITIAL_DATA = INITIAL_exhibitionProducts"
    by (simp add: INITIAL_DATA_def)
  have u2: "\<forall>item \<in> set [?good, ?bad]. \<forall>p. member item ''productId'' = Inr p \<longrightarrow>
                   (\<forall>ep \<in> set (exhibitionProducts INITIAL_DATA).
                    \<forall>ep' \<in> set (exhibitionProducts INITIAL_DATA).
                      strict_eq (JStr (ep_exhibitionId ep)) (JStr ''EX-2941'')
                      \<and> strict_eq (ep_productId ep) p
                      \<and> strict_eq (JStr (ep_exhibitionId ep')) (JStr ''EX-2941'')
                      \<and> strict_eq (ep_productId ep') p
                      \<longrightarrow> ep = ep')"
    by (simp add: eps INITIAL_exhibitionProducts_def property_def)
  then have u1: "\<forall>item \<in> set [?good]. \<forall>p. member item ''productId'' = Inr p \<longrightarrow>
                   (\<forall>ep \<in> set (exhibitionProducts INITIAL_DATA).
                    \<forall>ep' \<in> set (exhibitionProducts INITIAL_DATA).
                      strict_eq (JStr (ep_exhibitionId ep)) (JStr ''EX-2941'')
                      \<and> strict_eq (ep_productId ep) p
                      \<and> strict_eq (JStr (ep_exhibitionId ep')) (JStr ''EX-2941'')
                      \<and> strict_eq (ep_productId ep') p
                      \<longrightarrow> ep = ep')"
    by simp
  note g1 = createOrder_gate [OF requireRoles_seed_headerless e1 t i1 u1,
      of "''1234''" "''2026-01-01T00:00:00.000Z''"]
  note g2 = createOrder_gate [OF requireRoles_seed_headerless e2 t i2 u2,
      of "''1234''" "''2026-01-01T00:00:00.000Z''"]
  have rows: "\<forall>item \<in> set [?good]. \<exists>p. member item ''productId'' = Inr p
                 \<and> (\<exists>ep \<in> set (exhibitionProducts INITIAL_DATA).
                       strict_eq (JStr (ep_exhibitionId ep)) (JStr ''EX-2941'')
                       \<and> strict_eq (ep_productId ep) p
                       \<and> ep_status ep = JStr ''approved'')"
    by (simp add: property_def eps INITIAL_exhibitionProducts_def)
  have first: "find (\<lambda>item. \<not> (\<exists>p. member item ''productId'' = Inr p
                   \<and> isProductApprovedForExhibition INITIAL_DATA (JStr ''EX-2941'') p)) [?good, ?bad]
                = Some ?bad"
    by (simp add: property_def isProductApprovedForExhibition_def eps
          INITIAL_exhibitionProducts_def)
  have pid: "member ?bad ''productId'' = Inr (JStr ''456570'')"
    by (simp add: property_def)
  have name: "(case getProductById INITIAL_DATA (JStr ''456570'') of None \<Rightarrow> JUndefined
               | Some product \<Rightarrow> property product ''name'') = JStr ''Bourn Vita''"
    by (simp add: getProductById_def property_def INITIAL_DATA_def INITIAL_products_def)
  from g1 rows have ok: "\<exists>order. POST_orders ''1234'' ''2026-01-01T00:00:00.000Z'' None (Some (JObj ?b1)) INITIAL_DATA
     = (Response 201 (Payload order), INITIAL_DATA\<lparr>orders := orders INITIAL_DATA @ [order]\<rparr>)"
    by blast
  have texts: "to_text (case getProductById INITIAL_DATA (JStr ''456570'') of None \<Rightarrow> JUndefined
               | Some product \<Rightarrow> property product ''name'') = Inr ''Bourn Vita''"
      "to_text (JStr ''456570'') = Inr ''456570''"
    by (simp_all add: name)
  from g2 first pid texts have "POST_orders ''1234'' ''2026-01-01T00:00:00.000Z'' None (Some (JObj ?b2)) INITIAL_DATA
     = (Response 400 (Error_details ''Cannot create order with unapproved products''
                        (case getProductById INITIAL_DATA (JStr ''456570'') of None \<Rightarrow> JUndefined
               | Some product \<Rightarrow> property product ''name'') (JStr ''456570'')), INITIAL_DATA)"
    by blast
  with name ok show ?thesis by simp
qed

text \<open>
  C1 as stated fails in both directions. After a manager adds product 456570 to EX-2941 a
  second time and approves the new row, an approved row for the pair exists (row 4), and
  the order is still refused, because the lookup stops at the older, pending row. And for
  the empty exhibition code, for which the table has no row at all, the order is created.
\<close>

theorem createOrder_gate_counterexample:
  "exhibitionProducts
     (run [Add_exhibition_products ''EX-2941'' (\<lambda>n. ''dup'' @ decimal n) (Some ''u2'')
             (Some (JObj [(''products'',
                           JArr [JObj [(''productId'', JStr ''456570''), (''quantity'', JNum 1)]])])),
           Set_approval (Some ''u2'')
             (Some (JObj [(''id'', JStr ''dup0''), (''status'', JStr ''approved'')]))]
        INITIAL_DATA) ! 4
     = \<lparr>ep_id = ''dup0'', ep_exhibitionId = ''EX-2941'', ep_productId = JStr ''456570'',
        ep_quantity = JNum 1, ep_price = JUndefined, ep_status = JStr ''approved'',
        ep_supplierId = ''current-user''\<rparr>
   \<and> fst (POST_orders ''1234'' ''2026-01-01T00:00:00.000Z'' None
          (Some (JObj [(''exhibitionId'', JStr ''EX-2941''),
                       (''items'', JArr [JObj [(''productId'', JStr ''456570''), (''quantity'', JNum 5)]])]))
          (run [Add_exhibition_products ''EX-2941'' (\<lambda>n. ''dup'' @ decimal n) (Some ''u2'')
                  (Some (JObj [(''products'',
                                JArr [JObj [(''productId'', JStr ''456570''), (''quantity'', JNum 1)]])])),
                Set_approval (Some ''u2'')
                  (Some (JObj [(''id'', JStr ''dup0''), (''status'', JStr ''approved'')]))]
             INITIAL_DATA))
     = Response 400 (Error_details ''Cannot create order with unapproved products''
                       (JStr ''Bourn Vita'') (JStr ''456570''))
   \<and> filter (\<lambda>ep. ep_exhibitionId ep = []) (exhibitionProducts INITIAL_DATA) = []
   \<and> POST_orders ''1234'' ''2026-01-01T00:00:00.000Z'' None
        (Some (JObj [(''exhibitionId'', JStr []),
                     (''items'', JArr [JObj [(''productId'', JStr ''456570''), (''quantity'', JNum 5)]])]))
        INITIAL_DATA
     = (Response 201 (Payload
          [(''exhibitionId'', JStr []),
           (''items'', JArr [JObj [(''productId'', JStr ''456570''), (''quantity'', JNum 5)]]),
           (''id'', JStr ''1234''), (''exhibitionId'', JStr []),
           (''createdAt'', JStr ''2026-01-01T00:00:00.000Z''), (''status'', JStr ''DRAFT'')]),
        INITIAL_DATA\<lparr>orders := orders INITIAL_DATA @
          [[(''exhibitionId'', JStr []),
            (''items'', JArr [JObj [(''productId'', JStr ''456570''), (''quantity'', JNum 5)]]),
            (''id'', JStr ''1234''), (''exhibitionId'', JStr []),
            (''createdAt'', JStr ''2026-01-01T00:00:00.000Z''), (''status'', JStr ''DRAFT'')]]\<rparr>)"
  by code_simp

text \<open>
  An item that is not approved and whose \<^verbatim>\<open>productId\<close> cannot be turned into text, here an
  object with a \<^verbatim>\<open>toString\<close> property of its own, alone or in an array: the template
  literal throws, the answer is the 500, and no order is inserted.
\<close>

lemma createOrder_text_throws:
  "POST_orders ''1234'' ''2026-01-01T00:00:00.000Z'' None
     (Some (JObj [(''exhibitionId'', JStr ''EX-2941''),
                  (''items'', JArr [JObj [(''productId'', JObj [(''toString'', JNull)])]])]))
     INITIAL_DATA
   = (Response 500 (Error ''Failed to create order''), INITIAL_DATA)"
  "POST_orders ''1234'' ''2026-01-01T00:00:00.000Z'' None
     (Some (JObj [(''exhibitionId'', JStr ''EX-2941''),
                  (''items'', JArr [JObj [(''productId'',
                                          JArr [JNum 1, JObj [(''toString'', JStr ''x'')]])]])]))
     INITIAL_DATA
   = (Response 500 (Error ''Failed to create order''), INITIAL_DATA)"
  "POST_orders ''1234'' ''2026-01-01T00:00:00.000Z'' None
     (Some (JObj [(''exhibitionId'', JStr ''EX-2941''),
                  (''items'', JArr [JObj [(''productId'', JObj [(''valueOf'', JNull)])]])]))
     INITIAL_DATA
   = (Response 400 (Error_details ''Cannot create order with unapproved products''
                      JUndefined (JObj [(''valueOf'', JNull)])), INITIAL_DATA)"
  by code_simp+


text \<open>
  C2, amended. For an authorised caller and a body that is an object with a truthy
  \<^verbatim>\<open>exhibitionId\<close> and an array \<^verbatim>\<open>items\<close>: if the item at any position \<open>k\<close> is not approved
  for the exhibition, the whole store is left as it was, the orders table in particular,
  and the answer is a 400 or a 500, whatever the items before \<open>k\<close> are.
\<close>

theorem createOrder_all_or_nothing:
  assumes auth: "requireRoles d header (PERMISSIONS ORDER_CREATE) = (Inr u :: jsobj response + user)"
    and e: "property body ''exhibitionId'' = e" "truthy e"
    and items: "property body ''items'' = JArr items"
    and k: "k < length items"
    and unapproved: "\<forall>p. member (items ! k) ''productId'' = Inr p
                       \<longrightarrow> \<not> isProductApprovedForExhibition d e p"
  shows "snd (POST_orders random now header (Some (JObj body)) d) = d
         \<and> orders (snd (POST_orders random now header (Some (JObj body)) d)) = orders d
         \<and> status_code (fst (POST_orders random now header (Some (JObj body)) d)) \<in> {400, 500}"
proof -
  have "items ! k \<in> set items" using k by simp
  with unapproved have "check_items d e items \<noteq> Completed"
    unfolding check_items_Completed by blast
  then show ?thesis
    unfolding POST_orders_checked [OF auth e items]
    by (auto split: loop.splits dest: check_items_not_201)
qed


text \<open>An approved item followed by a pending one, on the seeded store.\<close>

theorem createOrder_all_or_nothing_witness:
  "(1::nat) < length [JObj [(''productId'', JStr ''456567''), (''quantity'', JNum 10)],
                      JObj [(''productId'', JStr ''456570''), (''quantity'', JNum 5)]]
   \<and> isProductApprovedForExhibition INITIAL_DATA (JStr ''EX-2941'') (JStr ''456567'')
   \<and> isProductApprovedForExhibition INITIAL_DATA (JStr ''EX-2941'') (JStr ''456570'') = False
   \<and> snd (POST_orders ''1234'' ''2026-01-01T00:00:00.000Z'' None
          (Some (JObj [(''exhibitionId'', JStr ''EX-2941''),
                       (''items'', JArr [JObj [(''productId'', JStr ''456567''), (''quantity'', JNum 10)],
                                         JObj [(''productId'', JStr ''456570''), (''quantity'', JNum 5)]])]))
          INITIAL_DATA) = INITIAL_DATA
   \<and> status_code (fst (POST_orders ''1234'' ''2026-01-01T00:00:00.000Z'' None
          (Some (JObj [(''exhibitionId'', JStr ''EX-2941''),
                       (''items'', JArr [JObj [(''productId'', JStr ''456567''), (''quantity'', JNum 10)],
                                         JObj [(''productId'', JStr ''456570''), (''quantity'', JNum 5)]])]))
          INITIAL_DATA)) \<in> {400, 500}"
proof -
  let ?good = "JObj [(''productId'', JStr ''456567''), (''quantity'', JNum 10)]"
  let ?bad = "JObj [(''productId'', JStr ''456570''), (''quantity'', JNum 5)]"
  let ?b = "[(''exhibitionId'', JStr ''EX-2941''), (''items'', JArr [?good, ?bad])]"
  have e: "property ?b ''exhibitionId'' = JStr ''EX-2941''"
    and i: "property ?b ''items'' = JArr [?good, ?bad]"
    and t: "truthy (JStr ''EX-2941'')"
    and k: "(1::nat) < length [?good, ?bad]"
    by (simp_all add: property_def)
  have good: "isProductApprovedForExhibition INITIAL_DATA (JStr ''EX-2941'') (JStr ''456567'')"
    and bad: "isProductApprovedForExhibition INITIAL_DATA (JStr ''EX-2941'') (JStr ''456570'') = False"
    by (simp_all add: isProductApprovedForExhibition_def INITIAL_DATA_def
          INITIAL_exhibitionProducts_def)
  have u: "\<forall>p. member ([?good, ?bad] ! 1) ''productId'' = Inr p
             \<longrightarrow> \<not> isProductApprovedForExhibition INITIAL_DATA (JStr ''EX-2941'') p"
    using bad by (simp add: property_def)
  show ?thesis
    using k good bad
      createOrder_all_or_nothing [OF requireRoles_seed_headerless e t i k u,
        of "''1234''" "''2026-01-01T00:00:00.000Z''"]
    by blast
qed

text \<open>
  C2 as stated fails for a falsy exhibition code: product 456570 is not approved for the
  empty code, and the two-item order is created all the same.
\<close>

theorem createOrder_all_or_nothing_counterexample:
  "isProductApprovedForExhibition INITIAL_DATA (JStr []) (JStr ''456570'') = False
   \<and> status_code (fst (POST_orders ''1234'' ''2026-01-01T00:00:00.000Z'' None
        (Some (JObj [(''exhibitionId'', JStr []),
                     (''items'', JArr [JObj [(''productId'', JStr ''456567''), (''quantity'', JNum 10)],
                                       JObj [(''productId'', JStr ''456570''), (''quantity'', JNum 5)]])]))
        INITIAL_DATA)) = 201
   \<and> length (orders (snd (POST_orders ''1234'' ''2026-01-01T00:00:00.000Z'' None
        (Some (JObj [(''exhibitionId'', JStr []),
                     (''items'', JArr [JObj [(''productId'', JStr ''456567''), (''quantity'', JNum 10)],
                                       JObj [(''productId'', JStr ''456570''), (''quantity'', JNum 5)]])]))
        INITIAL_DATA))) = Suc (length (orders INITIAL_DATA))"
  by code_simp

lemma POST_orders_created:
  assumes auth: "requireRoles d header (PERMISSIONS ORDER_CREATE) = (Inr u :: jsobj response + user)"
    and post: "POST_orders random now header json d = (Response 201 (Payload order), d')"
  shows "\<exists>body e. json = Some body \<and> member body ''exhibitionId'' = Inr e
           \<and> order = own_props body @ [(''id'', JStr random), (''exhibitionId'', e),
                                        (''createdAt'', JStr now), (''status'', JStr ''DRAFT'')]
           \<and> d' = d\<lparr>orders := orders d @ [order]\<rparr>"
  using post unfolding POST_orders_authorized [OF auth] orders_try_def
  by (auto simp: addOrder_def Let_def split: option.splits sum.splits loop.splits if_splits
           dest: check_items_not_201)

lemma property_append:
  "property (xs @ ys) k = (case map_of xs k of None \<Rightarrow> property ys k | Some v \<Rightarrow> v)"
  by (simp add: property_def map_add_def split: option.splits)

text \<open>
  C4. For an authorised caller and a body from which \<^verbatim>\<open>exhibitionId\<close> and \<^verbatim>\<open>items\<close> can
  be read (any parsed body but \<^verbatim>\<open>null\<close>): when \<^verbatim>\<open>exhibitionId\<close> is falsy or \<^verbatim>\<open>items\<close> is not
  an array, absent included, the order is inserted and returned with 201. The result does
  not mention the table of exhibition products: nothing is checked.
\<close>

theorem createOrder_unchecked_without_items_array:
  assumes auth: "requireRoles d header (PERMISSIONS ORDER_CREATE) = (Inr u :: jsobj response + user)"
    and e: "member body ''exhibitionId'' = Inr e"
    and items: "member body ''items'' = Inr items"
    and skip: "\<not> truthy e \<or> \<not> isArray items"
  shows "POST_orders random now header (Some body) d
           = (Response 201 (Payload (own_props body @
                 [(''id'', JStr random), (''exhibitionId'', e),
                  (''createdAt'', JStr now), (''status'', JStr ''DRAFT'')])),
              d\<lparr>orders := orders d @
                 [own_props body @
                    [(''id'', JStr random), (''exhibitionId'', e),
                     (''createdAt'', JStr now), (''status'', JStr ''DRAFT'')]]\<rparr>)"
  using e items skip
  by (auto simp: POST_orders_authorized [OF auth] orders_try_def addOrder_def Let_def)

text \<open>
  C9. In a created order the properties \<^verbatim>\<open>id\<close>, \<^verbatim>\<open>createdAt\<close> and \<^verbatim>\<open>status\<close> are those of
  the request body whenever the body has them, and the generated identifier, the time stamp
  and \<open>DRAFT\<close> only when it has not.
\<close>

theorem createOrder_body_overrides:
  assumes auth: "requireRoles d header (PERMISSIONS ORDER_CREATE) = (Inr u :: jsobj response + user)"
    and post: "POST_orders random now header (Some body) d = (Response 201 (Payload order), d')"
  shows "d' = d\<lparr>orders := orders d @ [order]\<rparr>
         \<and> property order ''id''
             = (case map_of (own_props body) ''id'' of None \<Rightarrow> JStr random | Some v \<Rightarrow> v)
         \<and> property order ''createdAt''
             = (case map_of (own_props body) ''createdAt'' of None \<Rightarrow> JStr now | Some v \<Rightarrow> v)
         \<and> property order ''status''
             = (case map_of (own_props body) ''status'' of None \<Rightarrow> JStr ''DRAFT'' | Some v \<Rightarrow> v)"
proof -
  from POST_orders_created [OF auth post] obtain e where
      o: "order = own_props body @ [(''id'', JStr random), (''exhibitionId'', e),
                                    (''createdAt'', JStr now), (''status'', JStr ''DRAFT'')]"
      and d': "d' = d\<lparr>orders := orders d @ [order]\<rparr>"
    by auto
  have "property [(''id'', JStr random), (''exhibitionId'', e),
                  (''createdAt'', JStr now), (''status'', JStr ''DRAFT'')] ''id'' = JStr random"
       "property [(''id'', JStr random), (''exhibitionId'', e),
                  (''createdAt'', JStr now), (''status'', JStr ''DRAFT'')] ''createdAt'' = JStr now"
       "property [(''id'', JStr random), (''exhibitionId'', e),
                  (''createdAt'', JStr now), (''status'', JStr ''DRAFT'')] ''status'' = JStr ''DRAFT''"
    by (simp_all add: property_def)
  then show ?thesis
    unfolding o property_append using d' o by (simp split: option.splits)
qed


text \<open>
  A single item sent as an object instead of an array: the pending product 456570 is
  ordered on the seeded store.
\<close>

theorem createOrder_unchecked_without_items_array_witness:
  "isProductApprovedForExhibition INITIAL_DATA (JStr ''EX-2941'') (JStr ''456570'') = False
   \<and> isArray (JObj [(''productId'', JStr ''456570''), (''quantity'', JNum 5)]) = False
   \<and> POST_orders ''1234'' ''2026-01-01T00:00:00.000Z'' None
        (Some (JObj [(''exhibitionId'', JStr ''EX-2941''),
                     (''items'', JObj [(''productId'', JStr ''456570''), (''quantity'', JNum 5)])]))
        INITIAL_DATA
     = (Response 201 (Payload
          [(''exhibitionId'', JStr ''EX-2941''),
           (''items'', JObj [(''productId'', JStr ''456570''), (''quantity'', JNum 5)]),
           (''id'', JStr ''1234''), (''exhibitionId'', JStr ''EX-2941''),
           (''createdAt'', JStr ''2026-01-01T00:00:00.000Z''), (''status'', JStr ''DRAFT'')]),
        INITIAL_DATA\<lparr>orders := orders INITIAL_DATA @
          [[(''exhibitionId'', JStr ''EX-2941''),
            (''items'', JObj [(''productId'', JStr ''456570''), (''quantity'', JNum 5)]),
            (''id'', JStr ''1234''), (''exhibitionId'', JStr ''EX-2941''),
            (''createdAt'', JStr ''2026-01-01T00:00:00.000Z''), (''status'', JStr ''DRAFT'')]]\<rparr>)"
proof -
  let ?items = "JObj [(''productId'', JStr ''456570''), (''quantity'', JNum 5)]"
  let ?b = "JObj [(''exhibitionId'', JStr ''EX-2941''), (''items'', ?items)]"
  have e: "member ?b ''exhibitionId'' = Inr (JStr ''EX-2941'')"
    and i: "member ?b ''items'' = Inr ?items"
    and s: "\<not> truthy (JStr ''EX-2941'') \<or> \<not> isArray ?items"
    and a: "isArray ?items = False"
    by (simp_all add: property_def)
  have bad: "isProductApprovedForExhibition INITIAL_DATA (JStr ''EX-2941'') (JStr ''456570'') = False"
    by (simp add: isProductApprovedForExhibition_def INITIAL_DATA_def
          INITIAL_exhibitionProducts_def)
  show ?thesis
    using bad a
      createOrder_unchecked_without_items_array [OF requireRoles_seed_headerless e i s,
        of "''1234''" "''2026-01-01T00:00:00.000Z''"]
    by simp
qed

text \<open>
  A body that brings its own \<^verbatim>\<open>id\<close> (that of a seeded order), \<^verbatim>\<open>createdAt\<close> and \<^verbatim>\<open>status\<close>.
\<close>

theorem createOrder_body_overrides_witness:
  "POST_orders ''1234'' ''2026-01-01T00:00:00.000Z'' None
     (Some (JObj [(''exhibitionId'', JStr ''EX-2941''),
                  (''items'', JArr [JObj [(''productId'', JStr ''456567''), (''quantity'', JNum 10)]]),
                  (''id'', JStr ''7535''),
                  (''createdAt'', JStr ''1999-12-31''),
                  (''status'', JStr ''SHIPPED'')]))
     INITIAL_DATA
   = (Response 201 (Payload
        [(''exhibitionId'', JStr ''EX-2941''),
         (''items'', JArr [JObj [(''productId'', JStr ''456567''), (''quantity'', JNum 10)]]),
         (''id'', JStr ''7535''),
         (''createdAt'', JStr ''1999-12-31''),
         (''status'', JStr ''SHIPPED''),
         (''id'', JStr ''1234''), (''exhibitionId'', JStr ''EX-2941''),
         (''createdAt'', JStr ''2026-01-01T00:00:00.000Z''), (''status'', JStr ''DRAFT'')]),
      INITIAL_DATA\<lparr>orders := orders INITIAL_DATA @
        [[(''exhibitionId'', JStr ''EX-2941''),
          (''items'', JArr [JObj [(''productId'', JStr ''456567''), (''quantity'', JNum 10)]]),
          (''id'', JStr ''7535''),
          (''createdAt'', JStr ''1999-12-31''),
          (''status'', JStr ''SHIPPED''),
          (''id'', JStr ''1234''), (''exhibitionId'', JStr ''EX-2941''),
          (''createdAt'', JStr ''2026-01-01T00:00:00.000Z''), (''status'', JStr ''DRAFT'')]]\<rparr>)
   \<and> property
        [(''exhibitionId'', JStr ''EX-2941''),
         (''items'', JArr [JObj [(''productId'', JStr ''456567''), (''quantity'', JNum 10)]]),
         (''id'', JStr ''7535''),
         (''createdAt'', JStr ''1999-12-31''),
         (''status'', JStr ''SHIPPED''),
         (''id'', JStr ''1234''), (''exhibitionId'', JStr ''EX-2941''),
         (''createdAt'', JStr ''2026-01-01T00:00:00.000Z''), (''status'', JStr ''DRAFT'')] ''id''
       = JStr ''7535''
   \<and> property
        [(''exhibitionId'', JStr ''EX-2941''),
         (''items'', JArr [JObj [(''productId'', JStr ''456567''), (''quantity'', JNum 10)]]),
         (''id'', JStr ''7535''),
         (''createdAt'', JStr ''1999-12-31''),
         (''status'', JStr ''SHIPPED''),
         (''id'', JStr ''1234''), (''exhibitionId'', JStr ''EX-2941''),
         (''createdAt'', JStr ''2026-01-01T00:00:00.000Z''), (''status'', JStr ''DRAFT'')] ''createdAt''
       = JStr ''1999-12-31''
   \<and> property
        [(''exhibitionId'', JStr ''EX-2941''),
         (''items'', JArr [JObj [(''productId'', JStr ''456567''), (''quantity'', JNum 10)]]),
         (''id'', JStr ''7535''),
         (''createdAt'', JStr ''1999-12-31''),
         (''status'', JStr ''SHIPPED''),
         (''id'', JStr ''1234''), (''exhibitionId'', JStr ''EX-2941''),
         (''createdAt'', JStr ''2026-01-01T00:00:00.000Z''), (''status'', JStr ''DRAFT'')] ''status''
       = JStr ''SHIPPED''"
  (is "?post \<and> ?id \<and> ?created \<and> ?status")
proof -
  have p: ?post by code_simp
  from createOrder_body_overrides [OF requireRoles_seed_headerless p]
  have "?id \<and> ?created \<and> ?status" by simp
  with p show ?thesis by blast
qed

section \<open>Setting the status of an exhibition product\<close>

lemma findIndex_None_iff: "findIndex p xs = None \<longleftrightarrow> (\<forall>x \<in> set xs. \<not> p x)"
  by (induction xs) auto

lemma findIndex_Some_iff:
  "findIndex p xs = Some n \<longleftrightarrow> n < length xs \<and> p (xs ! n) \<and> (\<forall>m<n. \<not> p (xs ! m))"
proof (induction xs arbitrary: n)
  case Nil
  then show ?case by simp
next
  case (Cons x xs)
  show ?case
  proof (cases "p x")
    case True
    then show ?thesis by (cases n) auto
  next
    case False
    show ?thesis
    proof (cases n)
      case 0
      with False show ?thesis by auto
    next
      case (Suc k)
      have "(\<forall>m<Suc k. \<not> p ((x # xs) ! m)) \<longleftrightarrow> (\<forall>m<k. \<not> p (xs ! m))"
        using False by (auto simp: less_Suc_eq_0_disj)
      with False Suc Cons.IH [of k] show ?thesis by auto
    qed
  qed
qed

lemma POST_approve_authorized:
  "requireRoles d header (PERMISSIONS APPROVAL_APPROVE) = (Inr u :: exhibitionProduct response + user) \<Longrightarrow>
   POST_approve header json d =
     (case approve_try json d of
        (Inl e, d') \<Rightarrow> (Response 500 (Error ''Failed to update status''), d')
      | (Inr response, d') \<Rightarrow> (response, d'))"
  by (simp add: POST_approve_def)

lemma js_includes_status:
  "js_includes [''approved'', ''rejected''] st \<longleftrightarrow> st \<in> {JStr ''approved'', JStr ''rejected''}"
  by (auto simp: js_includes_def)

lemma POST_approve_invalid:
  assumes "requireRoles d header (PERMISSIONS APPROVAL_APPROVE)
             = (Inr u :: exhibitionProduct response + user)"
    and "member body ''id'' = Inr i" "member body ''status'' = Inr st"
    and "st \<notin> {JStr ''approved'', JStr ''rejected''}"
  shows "POST_approve header (Some body) d = (Response 400 (Error ''Invalid status''), d)"
  using assms(2-)
  by (simp add: POST_approve_authorized [OF assms(1)] approve_try_def js_includes_status)

lemma POST_approve_missing:
  assumes "requireRoles d header (PERMISSIONS APPROVAL_APPROVE)
             = (Inr u :: exhibitionProduct response + user)"
    and "member body ''id'' = Inr i" "member body ''status'' = Inr st"
    and "st \<in> {JStr ''approved'', JStr ''rejected''}"
    and "\<forall>ep \<in> set (exhibitionProducts d). JStr (ep_id ep) \<noteq> i"
  shows "POST_approve header (Some body) d = (Response 404 (Error ''Product not found''), d)"
proof -
  have "findIndex (\<lambda>ep. strict_eq (JStr (ep_id ep)) i) (exhibitionProducts d) = None"
    unfolding findIndex_None_iff using assms(5) by auto
  then show ?thesis
    using assms(2-4)
    by (simp add: POST_approve_authorized [OF assms(1)] approve_try_def js_includes_status
          updateExhibitionProduct_def)
qed

lemma POST_approve_found:
  assumes "requireRoles d header (PERMISSIONS APPROVAL_APPROVE)
             = (Inr u :: exhibitionProduct response + user)"
    and "member body ''id'' = Inr i" "member body ''status'' = Inr st"
    and "st \<in> {JStr ''approved'', JStr ''rejected''}"
    and "n < length (exhibitionProducts d)"
    and "JStr (ep_id (exhibitionProducts d ! n)) = i"
    and "\<forall>m<n. JStr (ep_id (exhibitionProducts d ! m)) \<noteq> i"
  shows "POST_approve header (Some body) d
           = (Response 200 (Payload ((exhibitionProducts d ! n)\<lparr>ep_status := st\<rparr>)),
              d\<lparr>exhibitionProducts :=
                  (exhibitionProducts d)[n := (exhibitionProducts d ! n)\<lparr>ep_status := st\<rparr>]\<rparr>)"
proof -
  have "findIndex (\<lambda>ep. strict_eq (JStr (ep_id ep)) i) (exhibitionProducts d) = Some n"
    unfolding findIndex_Some_iff using assms(5-7) by auto
  then show ?thesis
    using assms(2-4)
    by (simp add: POST_approve_authorized [OF assms(1)] approve_try_def js_includes_status
          updateExhibitionProduct_def Let_def)
qed

text \<open>
  C5. For an authorised caller and a body from which \<^verbatim>\<open>id\<close> and \<^verbatim>\<open>status\<close> can be read: a
  status other than \<open>approved\<close> and \<open>rejected\<close> is answered 400 \<open>Invalid status\<close>, whether the
  id exists or not, and the store is unchanged; a valid status with an id that no row has
  is answered 404 \<open>Product not found\<close>, and the store is unchanged; a valid status with an
  id that some row has is answered 200 with the first such row, its status replaced, and
  the store holds that row at the same place, all other rows as they were.
\<close>

theorem setExhibitionProductStatus_outcomes:
  assumes auth: "requireRoles d header (PERMISSIONS APPROVAL_APPROVE)
                   = (Inr u :: exhibitionProduct response + user)"
    and i: "member body ''id'' = Inr i"
    and st: "member body ''status'' = Inr st"
  shows "(st \<notin> {JStr ''approved'', JStr ''rejected''}
            \<longrightarrow> POST_approve header (Some body) d = (Response 400 (Error ''Invalid status''), d))
       \<and> (st \<in> {JStr ''approved'', JStr ''rejected''}
            \<and> (\<forall>ep \<in> set (exhibitionProducts d). JStr (ep_id ep) \<noteq> i)
            \<longrightarrow> POST_approve header (Some body) d = (Response 404 (Error ''Product not found''), d))
       \<and> (\<forall>n. st \<in> {JStr ''approved'', JStr ''rejected''}
              \<and> n < length (exhibitionProducts d)
              \<and> JStr (ep_id (exhibitionProducts d ! n)) = i
              \<and> (\<forall>m<n. JStr (ep_id (exhibitionProducts d ! m)) \<noteq> i)
            \<longrightarrow> POST_approve header (Some body) d
                  = (Response 200 (Payload ((exhibitionProducts d ! n)\<lparr>ep_status := st\<rparr>)),
                     d\<lparr>exhibitionProducts :=
                         (exhibitionProducts d)[n := (exhibitionProducts d ! n)\<lparr>ep_status := st\<rparr>]\<rparr>))"
  using POST_approve_invalid [OF auth i st] POST_approve_missing [OF auth i st]
    POST_approve_found [OF auth i st]
  by blast

lemma requireRoles_seed_manager:
  "(requireRoles INITIAL_DATA (Some ''u2'') (PERMISSIONS APPROVAL_APPROVE) :: 'a response + user)
     = Inr \<lparr>u_id = ''u2'', username = ''manager'', role = ''MANAGER'', fullName = ''Project Manager''\<rparr>"
  by (simp add: requireRoles_def requireAuth_def authenticateUser_def getUserById_def hasRole_def
        INITIAL_DATA_def INITIAL_users_def)

text \<open>
  The three outcomes on the seeded store, as the manager \<open>u2\<close>: an invalid status for the
  pending row \<open>cszttszpu\<close>, an unknown id, and the approval of \<open>cszttszpu\<close>.
\<close>

theorem setExhibitionProductStatus_outcomes_witness:
  "POST_approve (Some ''u2'')
     (Some (JObj [(''id'', JStr ''cszttszpu''), (''status'', JStr ''pending'')])) INITIAL_DATA
     = (Response 400 (Error ''Invalid status''), INITIAL_DATA)
   \<and> POST_approve (Some ''u2'')
       (Some (JObj [(''id'', JStr ''no-such-id''), (''status'', JStr ''approved'')])) INITIAL_DATA
     = (Response 404 (Error ''Product not found''), INITIAL_DATA)
   \<and> POST_approve (Some ''u2'')
       (Some (JObj [(''id'', JStr ''cszttszpu''), (''status'', JStr ''approved'')])) INITIAL_DATA
     = (Response 200 (Payload
          \<lparr>ep_id = ''cszttszpu'', ep_exhibitionId = ''EX-2941'', ep_productId = JStr ''456568'',
           ep_quantity = JNum 1, ep_price = JUndefined, ep_status = JStr ''approved'',
           ep_supplierId = ''current-user''\<rparr>),
        INITIAL_DATA\<lparr>exhibitionProducts :=
          (exhibitionProducts INITIAL_DATA)[1 :=
             \<lparr>ep_id = ''cszttszpu'', ep_exhibitionId = ''EX-2941'', ep_productId = JStr ''456568'',
              ep_quantity = JNum 1, ep_price = JUndefined, ep_status = JStr ''approved'',
              ep_supplierId = ''current-user''\<rparr>]\<rparr>)"
proof -
  let ?b1 = "JObj [(''id'', JStr ''cszttszpu''), (''status'', JStr ''pending'')]"
  let ?b2 = "JObj [(''id'', JStr ''no-such-id''), (''status'', JStr ''approved'')]"
  let ?b3 = "JObj [(''id'', JStr ''cszttszpu''), (''status'', JStr ''approved'')]"
  have m1: "member ?b1 ''id'' = Inr (JStr ''cszttszpu'')" "member ?b1 ''status'' = Inr (JStr ''pending'')"
    and m2: "member ?b2 ''id'' = Inr (JStr ''no-such-id'')" "member ?b2 ''status'' = Inr (JStr ''approved'')"
    and m3: "member ?b3 ''id'' = Inr (JStr ''cszttszpu'')" "member ?b3 ''status'' = Inr (JStr ''approved'')"
    by (simp_all add: property_def)
  have eps: "exhibitionProducts INITIAL_DATA = INITIAL_exhibitionProducts"
    by (simp add: INITIAL_DATA_def)
  have absent: "\<forall>ep \<in> set (exhibitionProducts INITIAL_DATA). JStr (ep_id ep) \<noteq> JStr ''no-such-id''"
    by (simp add: eps INITIAL_exhibitionProducts_def)
  have row: "(1::nat) < length (exhibitionProducts INITIAL_DATA)"
      "JStr (ep_id (exhibitionProducts INITIAL_DATA ! 1)) = JStr ''cszttszpu''"
      "\<forall>m<(1::nat). JStr (ep_id (exhibitionProducts INITIAL_DATA ! m)) \<noteq> JStr ''cszttszpu''"
      "(exhibitionProducts INITIAL_DATA ! 1)\<lparr>ep_status := JStr ''approved''\<rparr>
         = \<lparr>ep_id = ''cszttszpu'', ep_exhibitionId = ''EX-2941'', ep_productId = JStr ''456568'',
           ep_quantity = JNum 1, ep_price = JUndefined, ep_status = JStr ''approved'',
           ep_supplierId = ''current-user''\<rparr>"
    by (simp_all add: eps INITIAL_exhibitionProducts_def)
  have a: "POST_approve (Some ''u2'') (Some ?b1) INITIAL_DATA
             = (Response 400 (Error ''Invalid status''), INITIAL_DATA)"
    using setExhibitionProductStatus_outcomes [OF requireRoles_seed_manager m1] by simp
  have b: "POST_approve (Some ''u2'') (Some ?b2) INITIAL_DATA
             = (Response 404 (Error ''Product not found''), INITIAL_DATA)"
    using setExhibitionProductStatus_outcomes [OF requireRoles_seed_manager m2] absent by simp
  have c: "POST_approve (Some ''u2'') (Some ?b3) INITIAL_DATA
             = (Response 200 (Payload ((exhibitionProducts INITIAL_DATA ! 1)\<lparr>ep_status := JStr ''approved''\<rparr>)),
                INITIAL_DATA\<lparr>exhibitionProducts :=
                  (exhibitionProducts INITIAL_DATA)[1 :=
                     (exhibitionProducts INITIAL_DATA ! 1)\<lparr>ep_status := JStr ''approved''\<rparr>]\<rparr>)"
    using setExhibitionProductStatus_outcomes [OF requireRoles_seed_manager m3] row(1,2,3) by blast
  show ?thesis
    using a b c unfolding row(4) by blast
qed

section \<open>The status of an exhibition product over sequences of requests\<close>

lemma keeps_decisions_refl: "keeps_decisions xs xs"
  by (simp add: keeps_decisions_def)

lemma keeps_decisions_trans:
  "keeps_decisions xs ys \<Longrightarrow> keeps_decisions ys zs \<Longrightarrow> keeps_decisions xs zs"
  unfolding keeps_decisions_def
  by (auto dest: less_le_trans)

lemma keeps_decisions_append: "keeps_decisions xs (xs @ ys)"
  by (simp add: keeps_decisions_def nth_append)

lemma keeps_decisions_decide:
  "st \<in> {JStr ''approved'', JStr ''rejected''} \<Longrightarrow>
   keeps_decisions xs (xs[n := (xs ! n)\<lparr>ep_status := st\<rparr>])"
  by (cases "n < length xs") (auto simp: keeps_decisions_def nth_list_update)

lemma add_exhibition_products_appends:
  "\<exists>rows. exhibitionProducts (snd (add_exhibition_products e ids n ps d))
            = exhibitionProducts d @ rows
        \<and> (\<forall>row \<in> set rows. ep_status row = JStr ''pending'' \<and> ep_exhibitionId row = e)
        \<and> length rows \<le> length ps
        \<and> (fst (add_exhibition_products e ids n ps d) = None \<longrightarrow> length rows = length ps)"
proof (induction ps arbitrary: n d)
  case Nil
  then show ?case by simp
next
  case (Cons p ps)
  show ?case
  proof (cases "member p ''productId''")
    case (Inl err)
    then show ?thesis by simp
  next
    case (Inr productId)
    then obtain quantity price where
      q: "member p ''quantity'' = Inr quantity" and pr: "member p ''price'' = Inr price"
      by (cases p) auto
    define row where "row = \<lparr>ep_id = ids n, ep_exhibitionId = e, ep_productId = productId,
                  ep_quantity = quantity, ep_price = price, ep_status = JStr ''pending'',
                  ep_supplierId = ''current-user''\<rparr>"
    define d1 where "d1 = addExhibitionProduct row d"
    have step: "add_exhibition_products e ids n (p # ps) d
                  = add_exhibition_products e ids (Suc n) ps d1"
      using Inr q pr by (simp add: row_def d1_def)
    have d1: "exhibitionProducts d1 = exhibitionProducts d @ [row]"
      by (simp add: d1_def addExhibitionProduct_def)
    have row: "ep_status row = JStr ''pending''" "ep_exhibitionId row = e"
      by (simp_all add: row_def)
    from Cons.IH [of "Suc n" d1]
    obtain rows where rows:
      "exhibitionProducts (snd (add_exhibition_products e ids (Suc n) ps d1))
         = exhibitionProducts d1 @ rows"
      "\<forall>r \<in> set rows. ep_status r = JStr ''pending'' \<and> ep_exhibitionId r = e"
      "length rows \<le> length ps"
      "fst (add_exhibition_products e ids (Suc n) ps d1) = None \<longrightarrow> length rows = length ps"
      by auto
    show ?thesis
      unfolding step
      using rows row d1 by (intro exI [of _ "row # rows"]) simp
  qed
qed


lemma add_list_items_exhibitionProducts:
  "exhibitionProducts (snd (add_list_items i ids n its d)) = exhibitionProducts d"
  by (induction its arbitrary: n d) (auto simp: addProductListItem_def split: sum.splits)

lemma POST_products_exhibitionProducts:
  "exhibitionProducts (snd (POST_products random random2 header form d)) = exhibitionProducts d"
  by (simp add: POST_products_def products_try_def addProduct_def Let_def
           split: sum.splits option.splits upload.splits)

lemma PUT_product_exhibitionProducts:
  "exhibitionProducts (snd (PUT_product i header json d)) = exhibitionProducts d"
  by (simp add: PUT_product_def updateProduct_def Let_def split: sum.splits option.splits)

lemma DELETE_product_exhibitionProducts:
  "exhibitionProducts (snd (DELETE_product i header d)) = exhibitionProducts d"
  by (simp add: DELETE_product_def deleteProduct_def split: sum.splits option.splits)

lemma orders_try_exhibitionProducts:
  "exhibitionProducts (snd (orders_try random now json d)) = exhibitionProducts d"
  by (simp add: orders_try_def addOrder_def Let_def split: option.splits sum.splits loop.splits)

lemma POST_orders_exhibitionProducts:
  "exhibitionProducts (snd (POST_orders random now header json d)) = exhibitionProducts d"
  using orders_try_exhibitionProducts [of random now json d]
  by (auto simp: POST_orders_def split: sum.splits prod.splits)

lemma updateProductList_exhibitionProducts:
  "exhibitionProducts (snd (updateProductList i f d)) = exhibitionProducts d"
  by (simp add: updateProductList_def Let_def split: option.splits)

text \<open>
  The store that each of the two product-list routes leaves is the store it found, or the
  store after one of its writes.
\<close>

lemma product_lists_try_store:
  "snd (product_lists_try random now ids json d) = d
   \<or> (\<exists>pl its. snd (product_lists_try random now ids json d)
                  = snd (add_list_items random ids 0 its (addProductList pl d)))"
  by (auto simp: product_lists_try_def Let_def split: option.splits sum.splits prod.splits)
     (metis snd_conv)+

lemma POST_product_lists_store:
  "snd (POST_product_lists random now ids header json d) = d
   \<or> (\<exists>pl its. snd (POST_product_lists random now ids header json d)
                  = snd (add_list_items random ids 0 its (addProductList pl d)))"
proof -
  have "snd (POST_product_lists random now ids header json d) = d
        \<or> snd (POST_product_lists random now ids header json d)
            = snd (product_lists_try random now ids json d)"
    by (auto simp: POST_product_lists_def split: sum.splits prod.splits)
  then show ?thesis
  proof
    assume "snd (POST_product_lists random now ids header json d) = d"
    then show ?thesis by simp
  next
    assume "snd (POST_product_lists random now ids header json d)
            = snd (product_lists_try random now ids json d)"
    then show ?thesis
      using product_lists_try_store [of random now ids json d] by simp
  qed
qed

lemma product_list_try_store:
  "snd (product_list_try i ids json d) = d
   \<or> (\<exists>f. snd (product_list_try i ids json d) = snd (updateProductList i f d))
   \<or> (\<exists>f g its. snd (product_list_try i ids json d)
          = snd (add_list_items i ids 0 its
                   (deleteProductListItemsByProductListId i
                      (snd (updateProductList i g (snd (updateProductList i f d)))))))
   \<or> (\<exists>g its. snd (product_list_try i ids json d)
          = snd (add_list_items i ids 0 its
                   (deleteProductListItemsByProductListId i (snd (updateProductList i g d)))))"
proof (cases "\<exists>body status items l. json = Some body \<and> member body ''status'' = Inr status
                 \<and> member body ''items'' = Inr items \<and> getProductListById d i = Some l")
  case False
  then have "snd (product_list_try i ids json d) = d"
    by (auto simp: product_list_try_def split: option.splits sum.splits)
  then show ?thesis by blast
next
  case True
  then obtain body status items l where a: "json = Some body" "member body ''status'' = Inr status"
      "member body ''items'' = Inr items" "getProductListById d i = Some l"
    by blast
  have l: "pl_id l = i"
    using a(4) by (auto simp: getProductListById_def dest: find_SomeD)
  define d1 where "d1 = (if truthy status
                         then snd (updateProductList i (\<lambda>pl. pl\<lparr>pl_status := status\<rparr>) d) else d)"
  have d1: "d1 = d \<or> d1 = snd (updateProductList i (\<lambda>pl. pl\<lparr>pl_status := status\<rparr>) d)"
    by (simp add: d1_def)
  define array where "array = (truthy items \<and> isArray items)"
  consider (none) "\<not> array"
    | (thrown) e where "array" "total_quantity (elements items) = Inl e"
    | (total) t where "array" "total_quantity (elements items) = Inr t"
    by (cases "total_quantity (elements items)") auto
  then show ?thesis
  proof cases
    case none
    then have "snd (product_list_try i ids json d) = d1"
      using a l by (auto simp: product_list_try_def d1_def Let_def array_def)
    with d1 show ?thesis by blast
  next
    case thrown
    then have "snd (product_list_try i ids json d) = d1"
      using a l by (auto simp: product_list_try_def d1_def Let_def array_def)
    with d1 show ?thesis by blast
  next
    case total
    then have "snd (product_list_try i ids json d)
          = snd (add_list_items i ids 0 (elements items)
                   (deleteProductListItemsByProductListId i
                      (snd (updateProductList i (\<lambda>pl. pl\<lparr>pl_totalQuantity := t\<rparr>) d1))))"
      using a l
      by (auto simp: product_list_try_def d1_def Let_def array_def split: prod.splits option.splits)
    with d1 show ?thesis by metis
  qed
qed

lemma PUT_product_list_store:
  "snd (PUT_product_list i ids header json d) = d
   \<or> (\<exists>f. snd (PUT_product_list i ids header json d) = snd (updateProductList i f d))
   \<or> (\<exists>f g its. snd (PUT_product_list i ids header json d)
          = snd (add_list_items i ids 0 its
                   (deleteProductListItemsByProductListId i
                      (snd (updateProductList i g (snd (updateProductList i f d)))))))
   \<or> (\<exists>g its. snd (PUT_product_list i ids header json d)
          = snd (add_list_items i ids 0 its
                   (deleteProductListItemsByProductListId i (snd (updateProductList i g d)))))"
proof -
  have "snd (PUT_product_list i ids header json d) = d
        \<or> snd (PUT_product_list i ids header json d) = snd (product_list_try i ids json d)"
    by (auto simp: PUT_product_list_def split: sum.splits prod.splits)
  then show ?thesis
  proof
    assume "snd (PUT_product_list i ids header json d) = d"
    then show ?thesis by simp
  next
    assume "snd (PUT_product_list i ids header json d) = snd (product_list_try i ids json d)"
    then show ?thesis
      using product_list_try_store [of i ids json d] by simp
  qed
qed

lemma POST_product_lists_exhibitionProducts:
  "exhibitionProducts (snd (POST_product_lists random now ids header json d)) = exhibitionProducts d"
  using POST_product_lists_store [of random now ids header json d]
  by (auto simp: add_list_items_exhibitionProducts addProductList_def)

lemma PUT_product_list_exhibitionProducts:
  "exhibitionProducts (snd (PUT_product_list i ids header json d)) = exhibitionProducts d"
  using PUT_product_list_store [of i ids header json d]
  by (auto simp: add_list_items_exhibitionProducts updateProductList_exhibitionProducts
        deleteProductListItemsByProductListId_def)

lemma exhibition_products_try_store:
  "snd (exhibition_products_try e ids json d) = d
   \<or> (\<exists>ps. snd (exhibition_products_try e ids json d) = snd (add_exhibition_products e ids 0 ps d))"
  by (auto simp: exhibition_products_try_def split: option.splits sum.splits prod.splits)
     (metis snd_conv)+

lemma exhibition_products_try_appends:
  "\<exists>rows. exhibitionProducts (snd (exhibition_products_try e ids json d))
            = exhibitionProducts d @ rows
        \<and> (\<forall>row \<in> set rows. ep_status row = JStr ''pending'' \<and> ep_exhibitionId row = e)"
proof -
  consider "snd (exhibition_products_try e ids json d) = d"
    | ps where "snd (exhibition_products_try e ids json d)
                  = snd (add_exhibition_products e ids 0 ps d)"
    using exhibition_products_try_store by blast
  then show ?thesis
  proof cases
    case 1
    then show ?thesis by (intro exI [of _ "[]"]) simp
  next
    case 2
    then show ?thesis
      using add_exhibition_products_appends [of e ids 0 ps d] by auto
  qed
qed

lemma POST_exhibition_products_appends:
  "\<exists>rows. exhibitionProducts (snd (POST_exhibition_products e ids header json d))
            = exhibitionProducts d @ rows
        \<and> (\<forall>row \<in> set rows. ep_status row = JStr ''pending'' \<and> ep_exhibitionId row = e)"
proof (cases "requireRoles d header (PERMISSIONS EXHIBITION_CREATE) :: unit response + user")
  case (Inl r)
  then show ?thesis
    by (intro exI [of _ "[]"]) (simp add: POST_exhibition_products_def)
next
  case (Inr u)
  then have "snd (POST_exhibition_products e ids header json d)
               = snd (exhibition_products_try e ids json d)"
    by (simp add: POST_exhibition_products_def split: prod.splits sum.splits)
  then show ?thesis
    using exhibition_products_try_appends [of e ids json d] by simp
qed


lemma exhibitions_try_appends:
  "\<exists>rows. exhibitionProducts (snd (exhibitions_try code random ids json d))
            = exhibitionProducts d @ rows
        \<and> (\<forall>row \<in> set rows. ep_status row = JStr ''pending'' \<and> ep_exhibitionId row = code)"
proof -
  have none: "\<exists>rows. exhibitionProducts d = exhibitionProducts d @ rows
        \<and> (\<forall>row \<in> set rows. ep_status row = JStr ''pending'' \<and> ep_exhibitionId row = code)"
    by (intro exI [of _ "[]"]) simp
  show ?thesis
  proof (cases json)
    case None
    then show ?thesis using none by (simp add: exhibitions_try_def)
  next
    case (Some body)
    show ?thesis
    proof (cases "member body ''name''")
      case (Inl err)
      then show ?thesis using none Some by (simp add: exhibitions_try_def)
    next
      case (Inr name)
      then obtain description startDate endDate productsField where m:
        "member body ''description'' = Inr description"
        "member body ''startDate'' = Inr startDate"
        "member body ''endDate'' = Inr endDate"
        "member body ''products'' = Inr productsField"
        by (cases body) auto
      define d1 where "d1 = addExhibition
          \<lparr>ex_id = random, ex_exhibitionId = code, ex_name = name, ex_description = description,
           ex_startDate = startDate, ex_endDate = endDate, ex_status = ''PLANNING''\<rparr> d"
      have d1: "exhibitionProducts d1 = exhibitionProducts d"
        by (simp add: d1_def addExhibition_def)
      show ?thesis
      proof (cases "truthy productsField \<and> isArray productsField")
        case False
        then have "snd (exhibitions_try code random ids json d) = d1"
          using Some Inr m by (auto simp: exhibitions_try_def d1_def Let_def)
        then show ?thesis using none d1 by simp
      next
        case True
        then have "snd (exhibitions_try code random ids json d)
                     = snd (add_exhibition_products code ids 0 (elements productsField) d1)"
          using Some Inr m
          by (simp add: exhibitions_try_def d1_def Let_def split: prod.splits option.splits)
        then show ?thesis
          using add_exhibition_products_appends [of code ids 0 "elements productsField" d1] d1
          by auto
      qed
    qed
  qed
qed

lemma POST_exhibitions_appends:
  "\<exists>rows. exhibitionProducts (snd (POST_exhibitions code random ids header json d))
            = exhibitionProducts d @ rows
        \<and> (\<forall>row \<in> set rows. ep_status row = JStr ''pending'' \<and> ep_exhibitionId row = code)"
proof (cases "requireRoles d header (PERMISSIONS EXHIBITION_CREATE) :: exhibition response + user")
  case (Inl r)
  then show ?thesis
    by (intro exI [of _ "[]"]) (simp add: POST_exhibitions_def)
next
  case (Inr u)
  then have "snd (POST_exhibitions code random ids header json d)
               = snd (exhibitions_try code random ids json d)"
    by (simp add: POST_exhibitions_def split: prod.splits sum.splits)
  then show ?thesis
    using exhibitions_try_appends [of code random ids json d] by simp
qed

lemma POST_approve_keeps:
  "keeps_decisions (exhibitionProducts d) (exhibitionProducts (snd (POST_approve header json d)))"
proof -
  have "exhibitionProducts (snd (POST_approve header json d)) = exhibitionProducts d
        \<or> (\<exists>n st. st \<in> {JStr ''approved'', JStr ''rejected''}
              \<and> exhibitionProducts (snd (POST_approve header json d))
                  = (exhibitionProducts d)[n := (exhibitionProducts d ! n)\<lparr>ep_status := st\<rparr>])"
    by (auto simp: POST_approve_def approve_try_def updateExhibitionProduct_def Let_def
          js_includes_def
        split: sum.splits option.splits prod.splits if_splits)
  then show ?thesis
    using keeps_decisions_refl keeps_decisions_decide by (metis (no_types, lifting))
qed


lemma appended_keeps:
  assumes "\<exists>rows. ys = xs @ rows \<and> (\<forall>row \<in> set rows. ep_status row = JStr ''pending'' \<and> P row)"
  shows "keeps_decisions xs ys"
  using assms keeps_decisions_append by auto

lemma appended_new_rows:
  assumes "\<exists>rows. ys = xs @ rows \<and> (\<forall>row \<in> set rows. ep_status row = JStr ''pending'' \<and> P row)"
  shows "\<forall>row \<in> set (drop (length xs) ys). ep_status row = JStr ''pending''"
  using assms by auto

lemma POST_approve_length:
  "length (exhibitionProducts (snd (POST_approve header json d))) = length (exhibitionProducts d)"
  by (auto simp: POST_approve_def approve_try_def updateExhibitionProduct_def Let_def
        split: sum.splits option.splits prod.splits if_splits)

lemma apply_operation_keeps:
  "keeps_decisions (exhibitionProducts d) (exhibitionProducts (apply_operation op d))"
proof (cases op)
  case (Create_exhibition code random ids header json)
  then show ?thesis
    using appended_keeps [OF POST_exhibitions_appends [of code random ids header json d]] by simp
next
  case (Add_exhibition_products e ids header json)
  then show ?thesis
    using appended_keeps [OF POST_exhibition_products_appends [of e ids header json d]] by simp
next
  case (Set_approval header json)
  then show ?thesis by (simp add: POST_approve_keeps)
qed (simp_all add: keeps_decisions_refl POST_products_exhibitionProducts
       PUT_product_exhibitionProducts DELETE_product_exhibitionProducts
       POST_orders_exhibitionProducts POST_product_lists_exhibitionProducts
       PUT_product_list_exhibitionProducts)

lemma apply_operation_new_rows:
  "\<forall>row \<in> set (drop (length (exhibitionProducts d)) (exhibitionProducts (apply_operation op d))).
     ep_status row = JStr ''pending''"
proof (cases op)
  case (Create_exhibition code random ids header json)
  then show ?thesis
    using appended_new_rows [OF POST_exhibitions_appends [of code random ids header json d]]
    by simp
next
  case (Add_exhibition_products e ids header json)
  then show ?thesis
    using appended_new_rows [OF POST_exhibition_products_appends [of e ids header json d]]
    by simp
next
  case (Set_approval header json)
  then show ?thesis by (simp add: POST_approve_length)
qed (simp_all add: POST_products_exhibitionProducts
       PUT_product_exhibitionProducts DELETE_product_exhibitionProducts
       POST_orders_exhibitionProducts POST_product_lists_exhibitionProducts
       PUT_product_list_exhibitionProducts)

lemma run_keeps:
  "keeps_decisions (exhibitionProducts d) (exhibitionProducts (run ops d))"
proof (induction ops arbitrary: d)
  case Nil
  then show ?case by (simp add: run_def keeps_decisions_refl)
next
  case (Cons op ops)
  have "run (op # ops) d = run ops (apply_operation op d)"
    by (simp add: run_def)
  then show ?case
    using keeps_decisions_trans [OF apply_operation_keeps [of d op] Cons.IH [of "apply_operation op d"]]
    by simp
qed


text \<open>
  C6. Whatever sequence of requests runs, a row of the exhibition-product table that is
  \<open>approved\<close> or \<open>rejected\<close> stays at its place, keeps its identifier, and is \<open>approved\<close> or
  \<open>rejected\<close> afterwards: it is never \<open>pending\<close> again. Every row that a request adds is
  \<open>pending\<close>. And approving a row that is already \<open>approved\<close> is answered 200 with the row
  and changes nothing.
\<close>

theorem decided_status_never_pending_again:
  "(\<forall>n. n < length (exhibitionProducts d)
         \<and> ep_status (exhibitionProducts d ! n) \<in> {JStr ''approved'', JStr ''rejected''}
       \<longrightarrow> n < length (exhibitionProducts (run ops d))
           \<and> ep_id (exhibitionProducts (run ops d) ! n) = ep_id (exhibitionProducts d ! n)
           \<and> ep_status (exhibitionProducts (run ops d) ! n) \<in> {JStr ''approved'', JStr ''rejected''})
   \<and> (\<forall>row \<in> set (drop (length (exhibitionProducts d))
                       (exhibitionProducts (apply_operation op d))).
         ep_status row = JStr ''pending'')
   \<and> (\<forall>n u. requireRoles d header (PERMISSIONS APPROVAL_APPROVE)
                = (Inr u :: exhibitionProduct response + user)
            \<and> member body ''id'' = Inr i
            \<and> member body ''status'' = Inr (JStr ''approved'')
            \<and> n < length (exhibitionProducts d)
            \<and> JStr (ep_id (exhibitionProducts d ! n)) = i
            \<and> (\<forall>m<n. JStr (ep_id (exhibitionProducts d ! m)) \<noteq> i)
            \<and> ep_status (exhibitionProducts d ! n) = JStr ''approved''
        \<longrightarrow> POST_approve header (Some body) d
              = (Response 200 (Payload (exhibitionProducts d ! n)), d))"
proof -
  have one: "n < length (exhibitionProducts (run ops d))
           \<and> ep_id (exhibitionProducts (run ops d) ! n) = ep_id (exhibitionProducts d ! n)
           \<and> ep_status (exhibitionProducts (run ops d) ! n) \<in> {JStr ''approved'', JStr ''rejected''}"
    if "n < length (exhibitionProducts d)"
       "ep_status (exhibitionProducts d ! n) \<in> {JStr ''approved'', JStr ''rejected''}" for n
    using run_keeps [of d ops] that unfolding keeps_decisions_def by auto
  have three: "POST_approve header (Some body) d
              = (Response 200 (Payload (exhibitionProducts d ! n)), d)"
    if auth: "requireRoles d header (PERMISSIONS APPROVAL_APPROVE)
                = (Inr u :: exhibitionProduct response + user)"
      and m: "member body ''id'' = Inr i" "member body ''status'' = Inr (JStr ''approved'')"
      and n: "n < length (exhibitionProducts d)" "JStr (ep_id (exhibitionProducts d ! n)) = i"
        "\<forall>m<n. JStr (ep_id (exhibitionProducts d ! m)) \<noteq> i"
      and a: "ep_status (exhibitionProducts d ! n) = JStr ''approved''" for n u
  proof -
    have same: "(exhibitionProducts d ! n)\<lparr>ep_status := JStr ''approved''\<rparr> = exhibitionProducts d ! n"
      using a by (metis exhibitionProduct.surjective exhibitionProduct.update_convs(6))
    show ?thesis
      using POST_approve_found [OF auth m _ n] by (simp add: same)
  qed
  show ?thesis
    using one apply_operation_new_rows [of d op] three by blast
qed


text \<open>
  On the seeded store, whose first row is approved: the request to set it back to
  \<open>pending\<close> is refused, the row is still decided after a sequence of three requests, the
  row that the second request adds is pending, and approving the first row again is a 200
  that leaves the store as it is.
\<close>

theorem decided_status_never_pending_again_witness:
  "ep_status (exhibitionProducts INITIAL_DATA ! 0) = JStr ''approved''
   \<and> fst (POST_approve (Some ''u2'')
            (Some (JObj [(''id'', JStr ''d7gyiq52d''), (''status'', JStr ''pending'')])) INITIAL_DATA)
       = Response 400 (Error ''Invalid status'')
   \<and> ep_status (exhibitionProducts
        (run [Set_approval (Some ''u2'')
                (Some (JObj [(''id'', JStr ''d7gyiq52d''), (''status'', JStr ''pending'')])),
              Add_exhibition_products ''EX-2941'' (\<lambda>n. ''new'' @ decimal n) (Some ''u2'')
                (Some (JObj [(''products'', JArr [JObj [(''productId'', JStr ''456569'')]])])),
              Set_approval (Some ''u2'')
                (Some (JObj [(''id'', JStr ''cszttszpu''), (''status'', JStr ''rejected'')]))]
           INITIAL_DATA) ! 0) \<in> {JStr ''approved'', JStr ''rejected''}
   \<and> map ep_status (drop (length (exhibitionProducts INITIAL_DATA))
         (exhibitionProducts (apply_operation
            (Add_exhibition_products ''EX-2941'' (\<lambda>n. ''new'' @ decimal n) (Some ''u2'')
               (Some (JObj [(''products'', JArr [JObj [(''productId'', JStr ''456569'')]])])))
            INITIAL_DATA)))
       = [JStr ''pending'']
   \<and> POST_approve (Some ''u2'')
        (Some (JObj [(''id'', JStr ''d7gyiq52d''), (''status'', JStr ''approved'')])) INITIAL_DATA
       = (Response 200 (Payload (exhibitionProducts INITIAL_DATA ! 0)), INITIAL_DATA)"
  (is "?a \<and> ?b \<and> ?c \<and> ?d \<and> ?e")
proof -
  let ?body = "JObj [(''id'', JStr ''d7gyiq52d''), (''status'', JStr ''approved'')]"
  note t = decided_status_never_pending_again [of INITIAL_DATA
      "[Set_approval (Some ''u2'')
          (Some (JObj [(''id'', JStr ''d7gyiq52d''), (''status'', JStr ''pending'')])),
        Add_exhibition_products ''EX-2941'' (\<lambda>n. ''new'' @ decimal n) (Some ''u2'')
          (Some (JObj [(''products'', JArr [JObj [(''productId'', JStr ''456569'')]])])),
        Set_approval (Some ''u2'')
          (Some (JObj [(''id'', JStr ''cszttszpu''), (''status'', JStr ''rejected'')]))]"
      "Add_exhibition_products ''EX-2941'' (\<lambda>n. ''new'' @ decimal n) (Some ''u2'')
         (Some (JObj [(''products'', JArr [JObj [(''productId'', JStr ''456569'')]])]))"
      "Some ''u2''" ?body "JStr ''d7gyiq52d''"]
  have eps: "exhibitionProducts INITIAL_DATA = INITIAL_exhibitionProducts"
    by (simp add: INITIAL_DATA_def)
  have a: ?a and len: "0 < length (exhibitionProducts INITIAL_DATA)"
    and first: "JStr (ep_id (exhibitionProducts INITIAL_DATA ! 0)) = JStr ''d7gyiq52d''"
    by (simp_all add: eps INITIAL_exhibitionProducts_def)
  have b: ?b by code_simp
  have d: ?d by code_simp
  have m: "member ?body ''id'' = Inr (JStr ''d7gyiq52d'')"
      "member ?body ''status'' = Inr (JStr ''approved'')"
    by (simp_all add: property_def)
  from t a len have c: ?c by blast
  from t requireRoles_seed_manager m a len first have e: ?e by blast
  from a b c d e show ?thesis by blast
qed

section \<open>Defaults of new products and new exhibition products\<close>

lemma requireRoles_products [simp]:
  "requireRoles (d\<lparr>products := ps\<rparr>) header allowed = requireRoles d header allowed"
  by (simp add: requireRoles_def requireAuth_def authenticateUser_def getUserById_def)

lemma add_exhibition_products_products:
  "add_exhibition_products e ids n items (d\<lparr>products := ps\<rparr>)
     = (fst (add_exhibition_products e ids n items d),
        (snd (add_exhibition_products e ids n items d))\<lparr>products := ps\<rparr>)"
proof (induction items arbitrary: n d)
  case Nil
  then show ?case by simp
next
  case (Cons p items)
  have comm: "addExhibitionProduct row (d\<lparr>products := ps\<rparr>)
                = (addExhibitionProduct row d)\<lparr>products := ps\<rparr>" for row
    by (simp add: addExhibitionProduct_def)
  show ?case
    by (simp add: comm Cons.IH split: sum.splits)
qed

lemma exhibition_products_try_products:
  "exhibition_products_try e ids json (d\<lparr>products := ps\<rparr>)
     = (fst (exhibition_products_try e ids json d),
        (snd (exhibition_products_try e ids json d))\<lparr>products := ps\<rparr>)"
  by (simp add: exhibition_products_try_def add_exhibition_products_products
        split: option.splits sum.splits prod.splits)

lemma POST_exhibition_products_products:
  "POST_exhibition_products e ids header json (d\<lparr>products := ps\<rparr>)
     = (fst (POST_exhibition_products e ids header json d),
        (snd (POST_exhibition_products e ids header json d))\<lparr>products := ps\<rparr>)"
  by (simp add: POST_exhibition_products_def exhibition_products_try_products
        split: option.splits sum.splits prod.splits)

lemma exhibitions_try_products:
  "exhibitions_try code random ids json (d\<lparr>products := ps\<rparr>)
     = (fst (exhibitions_try code random ids json d),
        (snd (exhibitions_try code random ids json d))\<lparr>products := ps\<rparr>)"
proof -
  have comm: "addExhibition x (d\<lparr>products := ps\<rparr>) = (addExhibition x d)\<lparr>products := ps\<rparr>" for x
    by (simp add: addExhibition_def)
  show ?thesis
    by (simp add: exhibitions_try_def comm add_exhibition_products_products Let_def
        split: option.splits sum.splits prod.splits)
qed

lemma POST_exhibitions_products:
  "POST_exhibitions code random ids header json (d\<lparr>products := ps\<rparr>)
     = (fst (POST_exhibitions code random ids header json d),
        (snd (POST_exhibitions code random ids header json d))\<lparr>products := ps\<rparr>)"
  by (simp add: POST_exhibitions_def exhibitions_try_products
        split: option.splits sum.splits prod.splits)

lemma add_exhibition_products_total:
  "\<forall>p \<in> set items. p \<noteq> JNull \<and> p \<noteq> JUndefined \<Longrightarrow>
   fst (add_exhibition_products e ids n items d) = None"
proof (induction items arbitrary: n d)
  case Nil
  then show ?case by simp
next
  case (Cons p items)
  then have "p \<noteq> JNull" "p \<noteq> JUndefined" by simp_all
  then obtain a b c where "member p ''productId'' = Inr a" "member p ''quantity'' = Inr b"
      "member p ''price'' = Inr c"
    by (cases p) auto
  then show ?case using Cons by simp
qed

lemma POST_products_created:
  assumes "requireRoles d header (PERMISSIONS PRODUCT_CREATE) = (Inr u :: jsobj response + user)"
    and "f_image form \<noteq> Write_failed"
  shows "\<exists>p. POST_products random random2 header (Some form) d
               = (Response 201 (Payload p), d\<lparr>products := products d @ [p]\<rparr>)
            \<and> property p ''isApproved'' = JBool False"
  using assms
  by (cases "f_image form")
     (simp_all add: POST_products_def products_try_def addProduct_def Let_def property_def)

lemma POST_products_201:
  assumes "POST_products random random2 header formData d = (Response 201 (Payload p), d')"
  shows "property p ''isApproved'' = JBool False \<and> d' = d\<lparr>products := products d @ [p]\<rparr>"
  using assms
  by (auto simp: POST_products_def products_try_def addProduct_def Let_def property_def
        requireRoles_def requireAuth_def
        split: sum.splits option.splits upload.splits if_splits)


lemma POST_exhibition_products_length:
  assumes "requireRoles d header (PERMISSIONS EXHIBITION_CREATE) = (Inr u :: unit response + user)"
    and "member body ''products'' = Inr (JArr items)"
    and "\<forall>p \<in> set items. p \<noteq> JNull \<and> p \<noteq> JUndefined"
  shows "fst (POST_exhibition_products e ids header (Some body) d) = Response 201 Success
         \<and> length (exhibitionProducts (snd (POST_exhibition_products e ids header (Some body) d)))
             = length (exhibitionProducts d) + length items"
proof -
  have none: "fst (add_exhibition_products e ids 0 items d) = None"
    using add_exhibition_products_total [OF assms(3)] .
  then obtain d2 where d2: "add_exhibition_products e ids 0 items d = (None, d2)"
    by (cases "add_exhibition_products e ids 0 items d") auto
  have post: "POST_exhibition_products e ids header (Some body) d
                     = (Response 201 Success, snd (add_exhibition_products e ids 0 items d))"
    using assms(1,2) d2
    by (simp add: POST_exhibition_products_def exhibition_products_try_def)
  from add_exhibition_products_appends [of e ids 0 items d] none
  have "length (exhibitionProducts (snd (add_exhibition_products e ids 0 items d)))
          = length (exhibitionProducts d) + length items"
    by auto
  with post show ?thesis by simp
qed

text \<open>
  C8. A product that \<^verbatim>\<open>POST /api/products\<close> creates has \<^verbatim>\<open>isApproved\<close> false: an authorised
  request whose upload does not fail creates one, and every 201 of the route carries such a
  product, appended to the table. The rows that \<^verbatim>\<open>POST /api/exhibitions/[id]/products\<close> and
  \<^verbatim>\<open>POST /api/exhibitions\<close> add to the exhibition-product table are appended and are all
  \<open>pending\<close>; they are the same rows whatever the products table holds, so the flag
  \<^verbatim>\<open>isApproved\<close> of the linked product plays no part; and an authorised request whose
  \<^verbatim>\<open>products\<close> is an array without \<^verbatim>\<open>null\<close> adds one row for each element.
\<close>

theorem fresh_product_unapproved_fresh_row_pending:
  "(\<forall>u form. requireRoles d header (PERMISSIONS PRODUCT_CREATE) = (Inr u :: jsobj response + user)
        \<and> f_image form \<noteq> Write_failed
      \<longrightarrow> (\<exists>p. POST_products random random2 header (Some form) d
                  = (Response 201 (Payload p), d\<lparr>products := products d @ [p]\<rparr>)
               \<and> property p ''isApproved'' = JBool False))
   \<and> (\<forall>formData p d'. POST_products random random2 header formData d = (Response 201 (Payload p), d')
      \<longrightarrow> property p ''isApproved'' = JBool False \<and> d' = d\<lparr>products := products d @ [p]\<rparr>)
   \<and> (\<exists>rows. exhibitionProducts (snd (POST_exhibition_products e ids header json d))
               = exhibitionProducts d @ rows
           \<and> (\<forall>row \<in> set rows. ep_status row = JStr ''pending''))
   \<and> (\<exists>rows. exhibitionProducts (snd (POST_exhibitions code random ids header json d))
               = exhibitionProducts d @ rows
           \<and> (\<forall>row \<in> set rows. ep_status row = JStr ''pending''))
   \<and> exhibitionProducts (snd (POST_exhibition_products e ids header json (d\<lparr>products := ps\<rparr>)))
       = exhibitionProducts (snd (POST_exhibition_products e ids header json d))
   \<and> exhibitionProducts (snd (POST_exhibitions code random ids header json (d\<lparr>products := ps\<rparr>)))
       = exhibitionProducts (snd (POST_exhibitions code random ids header json d))
   \<and> (\<forall>u body items. requireRoles d header (PERMISSIONS EXHIBITION_CREATE)
                         = (Inr u :: unit response + user)
        \<and> member body ''products'' = Inr (JArr items)
        \<and> (\<forall>p \<in> set items. p \<noteq> JNull \<and> p \<noteq> JUndefined)
      \<longrightarrow> fst (POST_exhibition_products e ids header (Some body) d) = Response 201 Success
          \<and> length (exhibitionProducts (snd (POST_exhibition_products e ids header (Some body) d)))
              = length (exhibitionProducts d) + length items)"
proof -
  have a: "\<exists>rows. exhibitionProducts (snd (POST_exhibition_products e ids header json d))
               = exhibitionProducts d @ rows
           \<and> (\<forall>row \<in> set rows. ep_status row = JStr ''pending'')"
    using POST_exhibition_products_appends [of e ids header json d] by blast
  have b: "\<exists>rows. exhibitionProducts (snd (POST_exhibitions code random ids header json d))
               = exhibitionProducts d @ rows
           \<and> (\<forall>row \<in> set rows. ep_status row = JStr ''pending'')"
    using POST_exhibitions_appends [of code random ids header json d] by blast
  have c: "exhibitionProducts (snd (POST_exhibition_products e ids header json (d\<lparr>products := ps\<rparr>)))
       = exhibitionProducts (snd (POST_exhibition_products e ids header json d))"
    by (simp add: POST_exhibition_products_products)
  have d: "exhibitionProducts (snd (POST_exhibitions code random ids header json (d\<lparr>products := ps\<rparr>)))
       = exhibitionProducts (snd (POST_exhibitions code random ids header json d))"
    by (simp add: POST_exhibitions_products)
  have p1: "\<forall>u form. requireRoles d header (PERMISSIONS PRODUCT_CREATE) = (Inr u :: jsobj response + user)
        \<and> f_image form \<noteq> Write_failed
      \<longrightarrow> (\<exists>p. POST_products random random2 header (Some form) d
                  = (Response 201 (Payload p), d\<lparr>products := products d @ [p]\<rparr>)
               \<and> property p ''isApproved'' = JBool False)"
  proof (intro allI impI, elim conjE)
    fix u and form :: product_form
    assume "requireRoles d header (PERMISSIONS PRODUCT_CREATE) = (Inr u :: jsobj response + user)"
      and "f_image form \<noteq> Write_failed"
    then show "\<exists>p. POST_products random random2 header (Some form) d
                  = (Response 201 (Payload p), d\<lparr>products := products d @ [p]\<rparr>)
               \<and> property p ''isApproved'' = JBool False"
      by (rule POST_products_created)
  qed
  have p2: "\<forall>formData p d'. POST_products random random2 header formData d = (Response 201 (Payload p), d')
      \<longrightarrow> property p ''isApproved'' = JBool False \<and> d' = d\<lparr>products := products d @ [p]\<rparr>"
  proof (intro allI impI)
    fix formData p d'
    assume "POST_products random random2 header formData d = (Response 201 (Payload p), d')"
    then show "property p ''isApproved'' = JBool False \<and> d' = d\<lparr>products := products d @ [p]\<rparr>"
      by (rule POST_products_201)
  qed
  have l: "\<forall>u body items. requireRoles d header (PERMISSIONS EXHIBITION_CREATE)
                         = (Inr u :: unit response + user)
        \<and> member body ''products'' = Inr (JArr items)
        \<and> (\<forall>p \<in> set items. p \<noteq> JNull \<and> p \<noteq> JUndefined)
      \<longrightarrow> fst (POST_exhibition_products e ids header (Some body) d) = Response 201 Success
          \<and> length (exhibitionProducts (snd (POST_exhibition_products e ids header (Some body) d)))
              = length (exhibitionProducts d) + length items"
  proof (intro allI impI, elim conjE)
    fix u body items
    assume "requireRoles d header (PERMISSIONS EXHIBITION_CREATE) = (Inr u :: unit response + user)"
      and "member body ''products'' = Inr (JArr items)"
      and "\<forall>p \<in> set items. p \<noteq> JNull \<and> p \<noteq> JUndefined"
    then show "fst (POST_exhibition_products e ids header (Some body) d) = Response 201 Success
          \<and> length (exhibitionProducts (snd (POST_exhibition_products e ids header (Some body) d)))
              = length (exhibitionProducts d) + length items"
      by (rule POST_exhibition_products_length)
  qed
  from p1 p2 a b c d l show ?thesis
    by (intro conjI)
qed


text \<open>
  On the seeded store: product 456571 is globally approved, and the row that links it to
  EX-7460 starts \<open>pending\<close>; the product of the form that \<^verbatim>\<open>test-api.ps1\<close> posts is
  created unapproved.
\<close>

theorem fresh_product_unapproved_fresh_row_pending_witness:
  "map (\<lambda>p. property p ''isApproved'')
       (filter (\<lambda>p. property p ''id'' = JStr ''456571'') (products INITIAL_DATA)) = [JBool True]
   \<and> map ep_status (drop (length (exhibitionProducts INITIAL_DATA))
         (exhibitionProducts (snd (POST_exhibition_products ''EX-7460'' (\<lambda>n. ''row'' @ decimal n)
            (Some ''u1'')
            (Some (JObj [(''products'',
                          JArr [JObj [(''productId'', JStr ''456571''), (''quantity'', JNum 2)]])]))
            INITIAL_DATA))))
       = [JStr ''pending'']
   \<and> length (exhibitionProducts (snd (POST_exhibition_products ''EX-7460'' (\<lambda>n. ''row'' @ decimal n)
            (Some ''u1'')
            (Some (JObj [(''products'',
                          JArr [JObj [(''productId'', JStr ''456571''), (''quantity'', JNum 2)]])]))
            INITIAL_DATA)))
       = length (exhibitionProducts INITIAL_DATA) + 1
   \<and> (\<exists>p. POST_products ''777001'' ''777002'' (Some ''u1'')
              (Some \<lparr>f_image = No_image, f_id = None,
                     f_name = JStr ''Test Product for Deletion'', f_category = JStr ''Test'',
                     f_buyingPrice = JNum 100, f_quantity = JNum 10, f_unit = JStr ''Units'',
                     f_thresholdValue = JNum 5, f_expiryDate = JStr ''2025-12-31'',
                     f_availability = JStr ''In-stock''\<rparr>)
              INITIAL_DATA
            = (Response 201 (Payload p), INITIAL_DATA\<lparr>products := products INITIAL_DATA @ [p]\<rparr>)
          \<and> property p ''isApproved'' = JBool False)"
  (is "?a \<and> ?b \<and> ?c \<and> ?d")
proof -
  let ?form = "\<lparr>f_image = No_image, f_id = None,
                     f_name = JStr ''Test Product for Deletion'', f_category = JStr ''Test'',
                     f_buyingPrice = JNum 100, f_quantity = JNum 10, f_unit = JStr ''Units'',
                     f_thresholdValue = JNum 5, f_expiryDate = JStr ''2025-12-31'',
                     f_availability = JStr ''In-stock''\<rparr>"
  let ?item = "JObj [(''productId'', JStr ''456571''), (''quantity'', JNum 2)]"
  let ?body = "JObj [(''products'', JArr [?item])]"
  note t = fresh_product_unapproved_fresh_row_pending
      [where d = INITIAL_DATA and header = "Some ''u1''" and random = "''777001''"
         and ?random2.0 = "''777002''" and e = "''EX-7460''"
         and ids = "\<lambda>n. ''row'' @ decimal n"]
  have admin: "(requireRoles INITIAL_DATA (Some ''u1'') (PERMISSIONS PRODUCT_CREATE)
                  :: jsobj response + user)
     = Inr \<lparr>u_id = ''u1'', username = ''admin'', role = ''ADMIN'', fullName = ''Super Admin''\<rparr>"
    by (simp add: requireRoles_def requireAuth_def authenticateUser_def getUserById_def
          hasRole_def INITIAL_DATA_def INITIAL_users_def)
  have img: "f_image ?form \<noteq> Write_failed" by simp
  have a: ?a
    by (simp add: INITIAL_DATA_def INITIAL_products_def property_def)
  have b: ?b by code_simp
  have admin': "(requireRoles INITIAL_DATA (Some ''u1'') (PERMISSIONS EXHIBITION_CREATE)
                  :: unit response + user)
     = Inr \<lparr>u_id = ''u1'', username = ''admin'', role = ''ADMIN'', fullName = ''Super Admin''\<rparr>"
    by (simp add: requireRoles_def requireAuth_def authenticateUser_def getUserById_def
          hasRole_def INITIAL_DATA_def INITIAL_users_def)
  have body: "member ?body ''products'' = Inr (JArr [?item])"
    and items: "\<forall>p \<in> set [?item]. p \<noteq> JNull \<and> p \<noteq> JUndefined"
    by (simp_all add: property_def)
  from t admin' body items
  have "length (exhibitionProducts (snd (POST_exhibition_products ''EX-7460''
            (\<lambda>n. ''row'' @ decimal n) (Some ''u1'') (Some ?body) INITIAL_DATA)))
          = length (exhibitionProducts INITIAL_DATA) + length [?item]"
    by blast
  then have c: ?c by simp
  from t admin img have d: ?d by blast
  from a b c d show ?thesis by blast
qed

section \<open>The total quantity of a product list\<close>

subsection \<open>Adding integers as doubles\<close>

lemma bitlen_bound: "a < 2 ^ k \<Longrightarrow> bitlen a \<le> k"
proof (induction k arbitrary: a)
  case 0
  then show ?case by (simp add: bitlen.simps)
next
  case (Suc k)
  show ?case
  proof (cases "a \<le> 0")
    case True
    then show ?thesis by (simp add: bitlen.simps)
  next
    case False
    have "a div 2 < 2 ^ k" using Suc.prems by simp
    from Suc.IH [OF this] False show ?thesis by (subst bitlen.simps) simp
  qed
qed

lemma to_double_safe: "\<bar>x\<bar> < 2 ^ 53 \<Longrightarrow> to_double x = JNum x"
  using bitlen_bound [of "\<bar>x\<bar>" 53] by (simp add: to_double_def Let_def)


lemma safe_sums_below:
  "(\<forall>n \<le> length qs. \<bar>a + sum_list (take n qs)\<bar> < 2 ^ 53) \<Longrightarrow> safe_sums a qs"
proof (induction qs arbitrary: a)
  case Nil
  then show ?case by simp
next
  case (Cons q qs)
  have "\<bar>a + sum_list (take (Suc 0) (q # qs))\<bar> < 2 ^ 53"
    using Cons.prems [rule_format, of "Suc 0"] by simp
  then have "\<bar>a + q\<bar> < 2 ^ 53"
    by simp
  then have one: "to_double (a + q) = JNum (a + q)"
    by (rule to_double_safe)
  have "\<bar>(a + q) + sum_list (take n qs)\<bar> < 2 ^ 53" if "n \<le> length qs" for n
    using Cons.prems [rule_format, of "Suc n"] that by (simp add: add.assoc)
  then have "safe_sums (a + q) qs"
    by (intro Cons.IH) blast
  with one show ?case by simp
qed






subsection \<open>What the two routes write\<close>


lemma add_list_items_productLists:
  "productLists (snd (add_list_items i ids n items d)) = productLists d"
  by (induction items arbitrary: n d) (auto simp: addProductListItem_def split: sum.splits)

lemma findIndex_find:
  "findIndex p xs = Some n \<Longrightarrow> find p xs = Some (xs ! n)"
  by (induction xs arbitrary: n) (auto split: if_splits)









subsection \<open>The invariant\<close>



























text \<open>
  What else the two routes do with items that are not objects with numbers. A \<^verbatim>\<open>null\<close> item
  makes the \<^verbatim>\<open>reduce\<close> throw: the creation answers 500 and writes nothing; the update
  answers 500 after it has written the new status. An item without a \<^verbatim>\<open>quantity\<close> makes the
  total \<^verbatim>\<open>NaN\<close>.
\<close>

lemma product_list_null_item:
  "POST_product_lists ''newlist01'' ''2026-01-01T00:00:00.000Z'' (\<lambda>n. ''item'' @ decimal n)
     (Some ''u1'')
     (Some (JObj [(''exhibitionId'', JStr ''EX-7516''), (''supplierId'', JStr ''current-user''),
                  (''items'', JArr [JNull])]))
     INITIAL_DATA
   = (Response 500 (Error ''Failed to create product list''), INITIAL_DATA)"
  "fst (PUT_product_list ''a1e8x088e'' (\<lambda>n. ''item'' @ decimal n) (Some ''u1'')
          (Some (JObj [(''status'', JStr ''approved''), (''items'', JArr [JNull])]))
          INITIAL_DATA)
   = Response 500 (Error ''Failed to update product list'')"
  "map pl_status
     (productLists (snd (PUT_product_list ''a1e8x088e'' (\<lambda>n. ''item'' @ decimal n) (Some ''u1'')
          (Some (JObj [(''status'', JStr ''approved''), (''items'', JArr [JNull])]))
          INITIAL_DATA)))
   = [JStr ''approved'', JStr ''pending'']"
  "map pl_totalQuantity
     (filter (\<lambda>pl. pl_id pl = ''a1e8x088e'')
        (productLists (snd (PUT_product_list ''a1e8x088e'' (\<lambda>n. ''item'' @ decimal n)
           (Some ''u1'')
           (Some (JObj [(''items'', JArr [JObj [(''productId'', JStr ''456567'')]])]))
           INITIAL_DATA))))
   = [JNaN]"
  by code_simp+

section \<open>No request writes the users\<close>

text \<open>
  So every store that a sequence of requests reaches from the seed holds the seeded users.
\<close>

lemma add_exhibition_products_users:
  "add_exhibition_products e ids n ps d = (r, d') \<Longrightarrow> users d' = users d"
proof (induction ps arbitrary: n d)
  case Nil
  then show ?case by simp
next
  case (Cons p ps)
  show ?case
  proof (cases "member p ''productId''")
    case (Inl err)
    with Cons.prems show ?thesis by simp
  next
    case (Inr productId)
    then obtain quantity price where
      "member p ''quantity'' = Inr quantity" "member p ''price'' = Inr price"
      by (cases p) auto
    with Inr Cons.prems Cons.IH show ?thesis
      by (fastforce simp: addExhibitionProduct_def)
  qed
qed

lemma add_list_items_users: "users (snd (add_list_items i ids n its d)) = users d"
  by (induction its arbitrary: n d) (auto simp: addProductListItem_def split: sum.splits)

lemma updateProductList_users: "users (snd (updateProductList i f d)) = users d"
  by (simp add: updateProductList_def Let_def split: option.splits)

lemma apply_operation_users: "users (apply_operation op d) = users d"
proof (cases op)
  case (Create_product random random2 header form)
  then show ?thesis
    by (simp add: POST_products_def products_try_def addProduct_def Let_def
          split: sum.splits option.splits upload.splits)
next
  case (Update_product i header json)
  then show ?thesis
    by (simp add: PUT_product_def updateProduct_def Let_def split: sum.splits option.splits)
next
  case (Delete_product i header)
  then show ?thesis
    by (simp add: DELETE_product_def deleteProduct_def split: sum.splits option.splits)
next
  case (Create_exhibition code random ids header json)
  then show ?thesis
    by (auto simp: POST_exhibitions_def exhibitions_try_def addExhibition_def Let_def
          split: sum.splits option.splits prod.splits dest!: add_exhibition_products_users)
next
  case (Add_exhibition_products e ids header json)
  then show ?thesis
    by (auto simp: POST_exhibition_products_def exhibition_products_try_def
          split: sum.splits option.splits prod.splits dest!: add_exhibition_products_users)
next
  case (Set_approval header json)
  then show ?thesis
    by (simp add: POST_approve_def approve_try_def updateExhibitionProduct_def Let_def
          split: sum.splits option.splits prod.splits)
next
  case (Create_order random now header json)
  then show ?thesis
    by (simp add: POST_orders_def orders_try_def addOrder_def Let_def
          split: sum.splits option.splits loop.splits prod.splits)
next
  case (Create_product_list random now ids header json)
  then show ?thesis
    using POST_product_lists_store [of random now ids header json d]
    by (auto simp: add_list_items_users addProductList_def)
next
  case (Update_product_list i ids header json)
  then show ?thesis
    using PUT_product_list_store [of i ids header json d]
    by (auto simp: add_list_items_users updateProductList_users
          deleteProductListItemsByProductListId_def)
qed

lemma run_users: "users (run ops d) = users d"
  by (induction ops arbitrary: d) (simp_all add: run_def apply_operation_users)

lemma reachable_users: "users (run ops INITIAL_DATA) = INITIAL_users"
  by (simp add: run_users INITIAL_DATA_def)

end
